theory Spec2Isabelle
  imports Main "HOL-Library.Word"
begin

section \<open>JavaScript strings\<close>

text \<open>
  A JavaScript string is a sequence of UTF-16 code units. All the string operations the
  flows use (\<^verbatim>\<open>split\<close>, \<^verbatim>\<open>trim\<close>, \<^verbatim>\<open>join\<close>, \<^verbatim>\<open>includes\<close>,
  \<^verbatim>\<open>startsWith\<close>, \<^verbatim>\<open>toLowerCase\<close>) work on code units, so a string is a list of
  16-bit words. \<open>js\<close> embeds an ASCII literal.
\<close>

type_synonym jschar = "16 word"
type_synonym jsstring = "jschar list"

definition js :: "string \<Rightarrow> jsstring" where
  "js s = map of_char s"

definition NL :: jschar where
  "NL = 0x0A"

text \<open>
  \<^verbatim>\<open>String.prototype.trim\<close> strips WhiteSpace and LineTerminator code points from both
  ends: TAB, LF, VT, FF, CR, SP, NBSP, the Unicode space separators (category Zs), LS, PS
  and the byte-order mark. All of them lie in the basic plane, so each is one code unit.
\<close>

definition isWhiteSpace :: "jschar \<Rightarrow> bool" where
  "isWhiteSpace c \<longleftrightarrow>
     c = 0x09 \<or> c = 0x0A \<or> c = 0x0B \<or> c = 0x0C \<or> c = 0x0D \<or> c = 0x20 \<or> c = 0xA0 \<or>
     c = 0x1680 \<or> (0x2000 \<le> c \<and> c \<le> 0x200A) \<or> c = 0x2028 \<or> c = 0x2029 \<or>
     c = 0x202F \<or> c = 0x205F \<or> c = 0x3000 \<or> c = 0xFEFF"

definition trim :: "jsstring \<Rightarrow> jsstring" where
  "trim s = rev (dropWhile isWhiteSpace (rev (dropWhile isWhiteSpace s)))"

text \<open>\<^verbatim>\<open>s.split(sep)\<close> for a one-character separator; \<^verbatim>\<open>''.split(sep)\<close> is \<^verbatim>\<open>['']\<close>.\<close>

fun split_at :: "jschar \<Rightarrow> jsstring \<Rightarrow> jsstring list" where
  "split_at sep [] = [[]]"
| "split_at sep (c # cs) =
     (if c = sep then [] # split_at sep cs
      else (case split_at sep cs of [] \<Rightarrow> [[c]] | l # ls \<Rightarrow> (c # l) # ls))"

text \<open>\<^verbatim>\<open>lines.join(sep)\<close>; the empty array joins to the empty string.\<close>

fun join_with :: "jsstring \<Rightarrow> jsstring list \<Rightarrow> jsstring" where
  "join_with sep [] = []"
| "join_with sep [l] = l"
| "join_with sep (l # m # ls) = l @ sep @ join_with sep (m # ls)"

text \<open>\<^verbatim>\<open>s.startsWith(p)\<close> and \<^verbatim>\<open>s.includes(p)\<close>.\<close>

fun startsWith :: "jsstring \<Rightarrow> jsstring \<Rightarrow> bool" where
  "startsWith s [] = True"
| "startsWith [] (p # ps) = False"
| "startsWith (c # cs) (p # ps) = (c = p \<and> startsWith cs ps)"

fun includesStr :: "jsstring \<Rightarrow> jsstring \<Rightarrow> bool" where
  "includesStr [] p = (p = [])"
| "includesStr (c # cs) p = (startsWith (c # cs) p \<or> includesStr cs p)"

section \<open>Sprint planner flow: de-duplication of the task list\<close>

text \<open>
  \<^verbatim>\<open>deduplicateTasks\<close> splits the text at line feeds, trims every line, and then filters
  the trimmed lines with a \<^verbatim>\<open>Set\<close> of the lines seen so far: a line is dropped when it is
  empty or already in the set, otherwise it is added to the set and kept. \<open>keepUnseen\<close> is
  that filter, with the set passed along.
\<close>

fun keepUnseen :: "jsstring set \<Rightarrow> jsstring list \<Rightarrow> jsstring list" where
  "keepUnseen seen [] = []"
| "keepUnseen seen (line # rest) =
     (if line = [] \<or> line \<in> seen then keepUnseen seen rest
      else line # keepUnseen (insert line seen) rest)"

definition dedupLines :: "jsstring \<Rightarrow> jsstring list" where
  "dedupLines tasksText = keepUnseen {} (map trim (split_at NL tasksText))"

definition deduplicateTasks :: "jsstring \<Rightarrow> jsstring" where
  "deduplicateTasks tasksText = join_with [NL] (dedupLines tasksText)"

text \<open>The position of the first occurrence of a line in a list of lines.\<close>

definition firstIndexOf :: "'a \<Rightarrow> 'a list \<Rightarrow> nat" where
  "firstIndexOf x xs = length (takeWhile (\<lambda>y. y \<noteq> x) xs)"

section \<open>Values shared by the flows\<close>

text \<open>
  A JavaScript number is observed by the code in two ways only: by its truthiness
  (\<^verbatim>\<open>{{#if n}}\<close>, \<^verbatim>\<open>n || 0\<close>) and by its text (\<^verbatim>\<open>String(n)\<close>, in a template or in
  a prompt). \<open>Zero\<close> is the number 0; \<open>NonZero t\<close> is a number other than 0 whose text
  is \<open>t\<close>. \<^verbatim>\<open>NaN\<close> is left out: \<^verbatim>\<open>z.number()\<close> rejects it and the task form stores
  \<^verbatim>\<open>undefined\<close> in its place.
\<close>

datatype jsnumber = Zero | NonZero jsstring

fun numberText :: "jsnumber \<Rightarrow> jsstring" where
  "numberText Zero = js ''0''"
| "numberText (NonZero t) = t"

text \<open>
  What a rejected promise carries: an \<^verbatim>\<open>Error\<close> with its message, or a thrown value
  that is not an \<^verbatim>\<open>Error\<close> object.
\<close>

datatype jserror =
    Error (message: jsstring)
  | NonError

text \<open>
  A flow whose input schema has a constraint can also be rejected before its body runs:
  the input validation of the flow fails with an error that names the offending field.
  The text of that error is the validation library's; no code of the repository reads it.
\<close>

datatype rejection =
    InvalidInput (field: jsstring)
  | Failed jserror

text \<open>
  The hosted model is opaque. One call \<^verbatim>\<open>await prompt(input)\<close> sends the rendered prompt
  and either throws (transport failure, service overloaded, response rejected by the
  output schema) or yields \<^verbatim>\<open>{output}\<close>, where \<^verbatim>\<open>output\<close> is a record of the output
  schema or \<^verbatim>\<open>null\<close>. A model is a function from the prompt text to that reply. Which
  of the two replies the library gives when the model produces nothing is the library's
  choice; the flows have a branch for each.
\<close>

datatype 'o reply = Threw jserror | Output "'o option"

type_synonym 'o model = "jsstring \<Rightarrow> 'o reply"

text \<open>
  A flow's outcome is the list of prompts it sent upstream together with the settled
  promise: \<open>Inl\<close> the rejection, \<open>Inr\<close> the output record.
\<close>

type_synonym 'o outcome = "jsstring list \<times> (jserror + 'o)"

text \<open>
  Handlebars renders the body of \<^verbatim>\<open>{{#if x}} ... {{/if}}\<close> when \<^verbatim>\<open>x\<close> is truthy:
  not \<^verbatim>\<open>undefined\<close>, not the empty string, not the number 0. A block tag alone on
  its line leaves no text behind, not even the line break. \<open>ifString\<close> and
  \<open>ifNumber\<close> are that block for a string and for a number.
\<close>

definition ifString :: "jsstring option \<Rightarrow> (jsstring \<Rightarrow> jsstring) \<Rightarrow> jsstring" where
  "ifString x body = (case x of None \<Rightarrow> [] | Some v \<Rightarrow> if v \<noteq> [] then body v else [])"

definition ifNumber :: "jsnumber option \<Rightarrow> (jsnumber \<Rightarrow> jsstring) \<Rightarrow> jsstring" where
  "ifNumber x body =
     (case x of None \<Rightarrow> [] | Some Zero \<Rightarrow> [] | Some (NonZero t) \<Rightarrow> body (NonZero t))"

section \<open>Sprint planner flow\<close>

record SprintPlanInput =
  tasksText :: jsstring
  sprintDuration :: "jsstring option"
  teamSize :: "jsstring option"
  teamStoryPointCapacity :: "jsnumber option"
  sprintGoal :: "jsstring option"

record SprintPlanOutput =
  sprintPlan :: jsstring
  warningsOrSuggestions :: "jsstring option"

text \<open>The fixed text of the prompt template around its placeholders.\<close>

definition sprintPromptHead :: jsstring where
  "sprintPromptHead = join_with [NL]
     [js ''You are an expert sprint planning assistant. Given a list of upcoming '' @
        js ''tasks with their priorities and estimated story points (SP), and '' @
        js ''information about the team'' @ [0x27] @ js ''s sprint, create an optimal sprint plan.'',
      [],
      js ''## Inputs:'',
      [],
      []]"

definition sprintPromptTaskList :: jsstring where
  "sprintPromptTaskList = join_with [NL]
     [[],
      js ''### Task List:'',
      []]"

definition sprintPromptTail :: jsstring where
  "sprintPromptTail = join_with [NL]
     [[],
      [],
      js ''Each task in the Task List is described in the format:'',
      js ''<Task Title> '' @ [0x2013] @ js '' <Priority: High/Medium/Low> '' @ [0x2013] @
        js '' <Story Points: number>'',
      js ''(If priority is '' @ [0x22] @ js ''N/A'' @ [0x22] @ js '' or story points are '' @
        [0x22] @ js ''0'' @ [0x22] @
        js '' for some tasks, acknowledge this and proceed with planning based on '' @
        js ''available information.)'',
      [],
      js ''## Your Goal:'',
      [],
      js ''1. Select the best combination of tasks to fit within the given capacity '' @
        js ''(if provided), prioritizing high-priority tasks and tasks that align with '' @
        js ''the sprint goal (if provided).'',
      js ''2. If story points are available for tasks and a team story point '' @
        js ''capacity is given, use these as the primary measure for fitting tasks '' @
        js ''into the sprint. If story points are not consistently available, or '' @
        js ''capacity is described qualitatively (e.g., team size and duration), make '' @
        js ''a reasonable judgment.'',
      js ''3. Output a markdown-formatted response with these sections exactly as '' @
        js ''follows:'',
      [],
      js ''---'',
      [],
      js ''## Sprint Plan'',
      js ''[List selected tasks, each on a new line. For each task, include its '' @
        js ''title, priority, and story points. Briefly (1 sentence) describe the '' @
        js ''purpose or value of including this task in the sprint. If a task was '' @
        js ''vague, note that.]'',
      [],
      js ''## Deferred Tasks'',
      js ''[List tasks not included in the sprint plan, especially if they were high '' @
        js ''or medium priority but couldn'' @ [0x27] @
        js ''t fit due to capacity constraints or other reasons. State the reason for '' @
        js ''deferral if clear (e.g., '' @ [0x22] @ js ''Exceeds capacity'' @ [0x22] @ js '', '' @
        [0x22] @ js ''Lower priority than selected tasks'' @ [0x22] @
        js ''). If no tasks are deferred, explicitly state '' @ [0x22] @ js ''N/A'' @ [0x22] @
        js '' or '' @ [0x22] @ js ''None'' @ [0x22] @ js ''.]'',
      [],
      js ''## Warnings & Suggestions'',
      js ''[Provide actionable tips. For example:'',
      js ''- Suggest breaking down very large tasks (e.g., tasks with SP > 13, or '' @
        js ''significantly larger than others).'',
      js ''- Identify potential high load on the team if the plan is very ambitious.'',
      js ''- Note if critical information (like consistent story points or clear '' @
        js ''priorities) was missing for many tasks, making planning difficult.'',
      js ''- Suggest clarifying ambiguous tasks.'',
      js ''- If the sprint goal was provided and some selected tasks don'' @ [0x27] @
        js ''t align well, mention this as a point for discussion.]'',
      [],
      js ''---'',
      [],
      js ''Only include markdown text in the response, starting with '' @ [0x22] @
        js ''## Sprint Plan'' @ [0x22] @ js ''. Do not invent details not provided in the inputs.'',
      js ''Structure your entire response strictly according to the '' @
        js ''SprintPlanOutputSchema. The '' @ [0x27] @ js ''sprintPlan'' @ [0x27] @
        js '' field in the output schema should contain the '' @ [0x22] @ js ''## Sprint Plan'' @
        [0x22] @ js '' and '' @ [0x22] @ js ''## Deferred Tasks'' @ [0x22] @ js '' sections. The '' @
        [0x27] @ js ''warningsOrSuggestions'' @ [0x27] @ js '' field should contain the '' @ [0x22] @
        js ''## Warnings & Suggestions'' @ [0x22] @ js '' section.'',
      []]"

text \<open>
  The four optional lines of the \<^verbatim>\<open>## Inputs:\<close> section. Their placeholders are
  double-brace expressions; what the template engine does to the value of such an
  expression (HTML escaping, or nothing when escaping is off) is the parameter \<open>esc\<close>.
  The task list is a triple-brace expression and is inserted as it is.
\<close>

definition sprintDurationSection :: "(jsstring \<Rightarrow> jsstring) \<Rightarrow> SprintPlanInput \<Rightarrow> jsstring" where
  "sprintDurationSection esc input =
     ifString (sprintDuration input) (\<lambda>v. js ''- Sprint Duration: '' @ esc v @ [NL])"

definition teamSizeSection :: "(jsstring \<Rightarrow> jsstring) \<Rightarrow> SprintPlanInput \<Rightarrow> jsstring" where
  "teamSizeSection esc input =
     ifString (teamSize input) (\<lambda>v. js ''- Team Size: '' @ esc v @ [NL])"

definition teamCapacitySection :: "(jsstring \<Rightarrow> jsstring) \<Rightarrow> SprintPlanInput \<Rightarrow> jsstring" where
  "teamCapacitySection esc input =
     ifNumber (teamStoryPointCapacity input)
       (\<lambda>n. js ''- Team Capacity: '' @ esc (numberText n) @ js '' story points per sprint'' @ [NL])"

definition sprintGoalSection :: "(jsstring \<Rightarrow> jsstring) \<Rightarrow> SprintPlanInput \<Rightarrow> jsstring" where
  "sprintGoalSection esc input =
     ifString (sprintGoal input) (\<lambda>v. js ''- Sprint Goal: '' @ esc v @ [NL])"

definition sprintPlannerPrompt :: "(jsstring \<Rightarrow> jsstring) \<Rightarrow> SprintPlanInput \<Rightarrow> jsstring" where
  "sprintPlannerPrompt esc input =
     sprintPromptHead @
     sprintDurationSection esc input @ teamSizeSection esc input @
     teamCapacitySection esc input @ sprintGoalSection esc input @
     sprintPromptTaskList @ tasksText input @ sprintPromptTail"

definition AI_EMPTY_RESPONSE :: jsstring where
  "AI_EMPTY_RESPONSE =
     js ''AI_EMPTY_RESPONSE: AI did not return a valid plan. The output was empty.''"

definition AI_FORMAT_ERROR :: jsstring where
  "AI_FORMAT_ERROR =
     js ''AI_FORMAT_ERROR: AI response is missing the required '' @ [0x27] @
     js ''## Sprint Plan'' @ [0x27] @
     js '' heading. This might indicate an unexpected AI output structure or a problem '' @
     js ''with the AI model'' @ [0x27] @ js ''s adherence to the output schema.''"

text \<open>
  \<^verbatim>\<open>sprintPlannerFlow\<close>. Every record of \<open>SprintPlanInput\<close> passes the input schema
  (no field has a constraint beyond its type), so the body always runs: it renders the
  prompt, calls the model, and checks the reply. The inner \<^verbatim>\<open>catch\<close> logs and rethrows.
\<close>

definition sprintPlannerFlow ::
  "(jsstring \<Rightarrow> jsstring) \<Rightarrow> SprintPlanOutput model \<Rightarrow> SprintPlanInput \<Rightarrow> SprintPlanOutput outcome" where
  "sprintPlannerFlow esc model input =
     (let p = sprintPlannerPrompt esc input in
      ([p],
       case model p of
         Threw error \<Rightarrow> Inl error
       | Output None \<Rightarrow> Inl (Error AI_EMPTY_RESPONSE)
       | Output (Some output) \<Rightarrow>
           if \<not> includesStr (sprintPlan output) (js ''## Sprint Plan'')
           then Inl (Error AI_FORMAT_ERROR)
           else Inr output))"

text \<open>
  \<^verbatim>\<open>suggestSprintPlan\<close> replaces the task list by its de-duplicated form and returns the
  flow's promise. The statement is \<^verbatim>\<open>return sprintPlannerFlow(flowInput)\<close>, without
  \<^verbatim>\<open>await\<close>: the \<^verbatim>\<open>try\<close> block is left as soon as the promise exists, so its
  \<^verbatim>\<open>catch\<close> guards only the synchronous steps (\<^verbatim>\<open>trim\<close>, \<^verbatim>\<open>deduplicateTasks\<close>, the
  call itself), none of which throws. A rejection of the flow reaches the caller as it is.
\<close>

definition suggestSprintPlan ::
  "(jsstring \<Rightarrow> jsstring) \<Rightarrow> SprintPlanOutput model \<Rightarrow> SprintPlanInput \<Rightarrow> SprintPlanOutput outcome" where
  "suggestSprintPlan esc model input =
     sprintPlannerFlow esc model (input\<lparr>tasksText := deduplicateTasks (tasksText input)\<rparr>)"

section \<open>Turning a failure into a notification\<close>

text \<open>
  \<^verbatim>\<open>toLowerCase\<close>, on the ASCII letters. The two phrases searched for in a lower-cased
  message are ASCII, and no other character lower-cases to text that completes them.
\<close>

definition lowerChar :: "jschar \<Rightarrow> jschar" where
  "lowerChar c = (if 0x41 \<le> c \<and> c \<le> 0x5A then c + 0x20 else c)"

definition toLowerCase :: "jsstring \<Rightarrow> jsstring" where
  "toLowerCase s = map lowerChar s"

definition isDigit :: "jschar \<Rightarrow> bool" where
  "isDigit c \<longleftrightarrow> 0x30 \<le> c \<and> c \<le> 0x39"

text \<open>
  \<^verbatim>\<open>message.match(/50\d|overloaded|unavailable/i)\<close>: the leftmost match, and at one
  position the first alternative that matches. \<open>matchHere\<close> tries the three alternatives
  at the start of the text.
\<close>

definition matchHere :: "jsstring \<Rightarrow> jsstring option" where
  "matchHere s =
     (if startsWith s (js ''50'') \<and> 3 \<le> length s \<and> isDigit (s ! 2) then Some (take 3 s)
      else if startsWith (toLowerCase s) (js ''overloaded'') then Some (take 10 s)
      else if startsWith (toLowerCase s) (js ''unavailable'') then Some (take 11 s)
      else None)"

fun serviceErrorMatch :: "jsstring \<Rightarrow> jsstring option" where
  "serviceErrorMatch [] = None"
| "serviceErrorMatch (c # cs) =
     (case matchHere (c # cs) of Some m \<Rightarrow> Some m | None \<Rightarrow> serviceErrorMatch cs)"

definition isServiceError :: "jsstring \<Rightarrow> bool" where
  "isServiceError m \<longleftrightarrow>
     includesStr m (js ''503'') \<or>
     includesStr (toLowerCase m) (js ''model is overloaded'') \<or>
     includesStr (toLowerCase m) (js ''service unavailable'')"

definition serviceUnavailableMessage :: "jsstring \<Rightarrow> jsstring" where
  "serviceUnavailableMessage detail =
     js ''The AI service is currently overloaded or unavailable ('' @ detail @
     js ''). Please try again in a few moments.''"

text \<open>
  The message shown for a caught failure, as the \<^verbatim>\<open>catch\<close> block of the page's
  \<^verbatim>\<open>onSubmit\<close> computes it (the \<^verbatim>\<open>catch\<close> block of \<^verbatim>\<open>suggestSprintPlan\<close> is the same
  code with another fallback text).
\<close>

definition errorMessage :: "jsstring \<Rightarrow> jserror \<Rightarrow> jsstring" where
  "errorMessage fallback error =
     (case error of
        NonError \<Rightarrow> fallback
      | Error m \<Rightarrow>
          (if isServiceError m
           then serviceUnavailableMessage
                  (case serviceErrorMatch m of Some detail \<Rightarrow> detail | None \<Rightarrow> js ''Error'')
           else if startsWith m (js ''AI_EMPTY_RESPONSE:'') \<or> startsWith m (js ''AI_FORMAT_ERROR:'')
           then m
           else if m = [] then fallback else m))"

section \<open>Sprint planner page\<close>

datatype ToastVariant = Default | Destructive

record Toast =
  toastVariant :: ToastVariant
  toastTitle :: jsstring
  toastDescription :: jsstring

text \<open>
  The state of the page: the result slot, the two busy flags, the task-list field of the
  form, and the notifications raised so far (latest last).
\<close>

record SprintPlannerPage =
  aiResponse :: "SprintPlanOutput option"
  isSubmittingToAI :: bool
  isFetchingProjectTasks :: bool
  formTasksText :: jsstring
  toasts :: "Toast list"

definition toast :: "Toast \<Rightarrow> SprintPlannerPage \<Rightarrow> SprintPlannerPage" where
  "toast t page = page\<lparr>toasts := toasts page @ [t]\<rparr>"

text \<open>\<^verbatim>\<open>onSubmit\<close>: one submission, run to its end.\<close>

definition onSubmit ::
  "(jsstring \<Rightarrow> jsstring) \<Rightarrow> SprintPlanOutput model \<Rightarrow> SprintPlanInput \<Rightarrow> SprintPlannerPage
     \<Rightarrow> SprintPlannerPage" where
  "onSubmit esc model data page =
     (let page1 = page\<lparr>isSubmittingToAI := True, aiResponse := None\<rparr> in
      case snd (suggestSprintPlan esc model data) of
        Inr response \<Rightarrow>
          (toast \<lparr>toastVariant = Default, toastTitle = js ''Sprint Plan Suggested!'',
                  toastDescription = js ''The AI has generated a sprint plan for you.''\<rparr>
             (page1\<lparr>aiResponse := Some response\<rparr>))
          \<lparr>isSubmittingToAI := False\<rparr>
      | Inl error \<Rightarrow>
          ((toast \<lparr>toastVariant = Destructive, toastTitle = js ''AI Error'',
                   toastDescription =
                     errorMessage (js ''Could not generate sprint plan. Please try again.'') error\<rparr>
              page1)
           \<lparr>aiResponse := None\<rparr>)
          \<lparr>isSubmittingToAI := False\<rparr>)"

section \<open>Scope-creep detector flow\<close>

record ScopeCreepInput =
  currentTasksText :: jsstring
  originalTasksText :: "jsstring option"
  sprintGoalSC :: "jsstring option"

datatype CreepLevel = CreepNone | CreepLow | CreepModerate | CreepHigh

record ScopeCreepOutput =
  analysisReport :: jsstring
  creepLevel :: CreepLevel
  recommendations :: "jsstring option"

text \<open>
  \<^verbatim>\<open>ScopeCreepInputSchema\<close>: \<^verbatim>\<open>currentTasksText\<close> is
  \<^verbatim>\<open>z.string().min(1, "Current sprint tasks cannot be empty.")\<close>; the optional fields
  have no constraint. The flow is defined with this schema as its \<^verbatim>\<open>inputSchema\<close>, so
  an input that fails it is rejected before the flow's body runs, with an error that
  names the field \<^verbatim>\<open>currentTasksText\<close>.
\<close>

definition ScopeCreepInputSchema :: "ScopeCreepInput \<Rightarrow> rejection + ScopeCreepInput" where
  "ScopeCreepInputSchema input =
     (if length (currentTasksText input) < 1
      then Inl (InvalidInput (js ''currentTasksText''))
      else Inr input)"

definition creepPromptHead :: jsstring where
  "creepPromptHead = join_with [NL]
     [js ''You are an AI assistant specializing in Agile project management, '' @
        js ''specifically in detecting sprint scope creep.'',
      js ''Your goal is to help teams identify when a sprint'' @ [0x27] @
        js ''s scope is expanding beyond its original commitments or capacity.'',
      [],
      js ''You will be provided with:'',
      js ''1.  **Current Sprint Tasks:** A list of tasks currently planned or being '' @
        js ''worked on in the sprint. Tasks might include implicit priority or effort.'',
      js ''2.  **Original Sprint Tasks (Optional):** The list of tasks that were '' @
        js ''committed to at the beginning of the sprint. This is the baseline.'',
      js ''3.  **Sprint Goal (Optional):** The main objective of the sprint.'',
      [],
      js ''Your Analysis Steps:'',
      js ''1.  **Baseline Comparison (if Original Sprint Tasks provided):**'',
      js ''    a.  Compare '' @ [0x27] @ js ''Current Sprint Tasks'' @ [0x27] @ js '' against '' @
        [0x27] @ js ''Original Sprint Tasks'' @ [0x27] @ js ''.'',
      js ''    b.  Identify tasks in the '' @ [0x27] @ js ''Current'' @ [0x27] @
        js '' list that are NOT in the '' @ [0x27] @ js ''Original'' @ [0x27] @
        js '' list. These are '' @ [0x22] @ js ''Newly Added Tasks.'' @ [0x22],
      js ''    c.  For each newly added task, assess its relevance to the '' @ [0x27] @
        js ''Sprint Goal'' @ [0x27] @
        js '' (if provided). Note if it seems to support or detract from the goal.'',
      js ''    d.  Comment on any significant increase in the total number of tasks '' @
        js ''or perceived workload due to these additions.'',
      js ''2.  **Current Scope Assessment (if Original Sprint Tasks NOT provided):**'',
      js ''    a.  Analyze the '' @ [0x27] @ js ''Current Sprint Tasks'' @ [0x27] @
        js '' list in isolation.'',
      js ''    b.  Look for:'',
      js ''        - A very high volume of tasks relative to typical sprint capacity '' @
        js ''(use general knowledge if capacity isn'' @ [0x27] @ js ''t specified).'',
      js ''        - Tasks that seem unrelated to the '' @ [0x27] @ js ''Sprint Goal'' @ [0x27] @
        js '' (if provided).'',
      js ''        - A mix of many low-priority items if high-priority items are '' @
        js ''also present and numerous.'',
      js ''    c.  Clearly state that without an original baseline, '' @ [0x22] @ js ''creep'' @
        [0x22] @ js '' is harder to definitively quantify, but you can highlight potential '' @
        js ''risks of overload or lack of focus.'',
      [],
      js ''Output Generation (Strictly follow the schema):'',
      [],
      js ''-   **analysisReport (Markdown Format):**'',
      js ''    *   Start with a concise summary statement of your findings regarding '' @
        js ''scope creep.'',
      js ''    *   If '' @ [0x27] @ js ''Original Sprint Tasks'' @ [0x27] @
        js '' were provided and new tasks identified:'',
      js ''        *   Create a '' @ [0x22] @ js ''## Newly Added Tasks'' @ [0x22] @
        js '' section.'',
      js ''        *   List each new task (e.g., using bullet points).'',
      js ''        *   Briefly comment on its potential impact (e.g., '' @ [0x22] @
        js ''Adds X effort,'' @ [0x22] @ js '' '' @ [0x22] @ js ''May divert focus from goal'' @
        [0x22] @ js '') and alignment with the '' @ [0x27] @ js ''Sprint Goal'' @ [0x27] @ js ''.'',
      js ''    *   If '' @ [0x27] @ js ''Original Sprint Tasks'' @ [0x27] @
        js '' were NOT provided:'',
      js ''        *   Describe the current scope based on '' @ [0x27] @
        js ''Current Sprint Tasks'' @ [0x27] @ js ''.'',
      js ''        *   Point out any observations about its size, focus, or '' @
        js ''potential risks (e.g., '' @ [0x22] @
        js ''The current scope includes X tasks. Without a baseline, it'' @ [0x27] @
        js ''s hard to measure creep, but ensure these align with the team'' @ [0x27] @
        js ''s capacity and the sprint goal.'' @ [0x22] @ js '').'',
      js ''    *   If a '' @ [0x27] @ js ''Sprint Goal'' @ [0x27] @
        js '' was provided, mention any tasks (new or original) that seem to deviate '' @
        js ''significantly from it.'',
      [],
      js ''-   **creepLevel (Enum: '' @ [0x22] @ js ''None'' @ [0x22] @ js '', '' @ [0x22] @
        js ''Low'' @ [0x22] @ js '', '' @ [0x22] @ js ''Moderate'' @ [0x22] @ js '', '' @ [0x22] @
        js ''High'' @ [0x22] @ js ''):**'',
      js ''    *   **'' @ [0x22] @ js ''None'' @ [0x22] @
        js '':** Current tasks align well with original (if provided) and goal. Scope '' @
        js ''seems stable and focused.'',
      js ''    *   **'' @ [0x22] @ js ''Low'' @ [0x22] @
        js '':** Minor additions, mostly aligned with the goal. Slight increase in work.'',
      js ''    *   **'' @ [0x22] @ js ''Moderate'' @ [0x22] @
        js '':** Several new tasks, some potentially misaligned or of lower priority. '' @
        js ''Noticeable increase in workload or potential distraction from the goal.'',
      js ''    *   **'' @ [0x22] @ js ''High'' @ [0x22] @
        js '':** Significant number of new tasks, many misaligned or of questionable '' @
        js ''priority. Clear signs of potential overload, lack of focus, or risk to '' @
        js ''the sprint goal. If original tasks are missing but current tasks appear '' @
        js ''excessive, unfocused, or contain many new unexpected items, this can also '' @
        js ''be '' @ [0x22] @ js ''Moderate'' @ [0x22] @ js '' to '' @ [0x22] @ js ''High'' @ [0x22] @
        js ''.'',
      [],
      js ''-   **recommendations (Optional string):**'',
      js ''    *   If creepLevel is '' @ [0x22] @ js ''Moderate'' @ [0x22] @ js '' or '' @ [0x22] @
        js ''High'' @ [0x22] @ js '', provide 1-2 brief, actionable recommendations.'',
      js ''    *   Examples: '' @ [0x22] @
        js ''Re-evaluate newly added tasks against the sprint goal and team capacity.'' @ [0x22] @
        js '', '' @ [0x22] @
        js ''Discuss with the Product Owner if these new tasks are critical for the '' @
        js ''current sprint.'' @ [0x22] @ js '', '' @ [0x22] @
        js ''Consider moving non-critical new items to the backlog to protect the '' @
        js ''sprint goal.'' @ [0x22],
      [],
      js ''Input Details:'',
      js ''Current Sprint Tasks:'',
      []]"

definition creepPromptTail :: jsstring where
  "creepPromptTail = join_with [NL]
     [[],
      js ''Remember to structure your entire response strictly according to the '' @
        js ''ScopeCreepOutputSchema (analysisReport as Markdown, creepLevel as one of '' @
        js ''the enum values, and optional recommendations).'',
      []]"

text \<open>
  The two optional blocks. All placeholders of this template are triple-brace
  expressions: the values are inserted as they are.
\<close>

definition originalTasksSection :: "ScopeCreepInput \<Rightarrow> jsstring" where
  "originalTasksSection input =
     ifString (originalTasksText input) (\<lambda>v. js ''Original Sprint Tasks:'' @ [NL] @ v @ [NL])"

definition sprintGoalSectionSC :: "ScopeCreepInput \<Rightarrow> jsstring" where
  "sprintGoalSectionSC input =
     ifString (sprintGoalSC input) (\<lambda>v. js ''Sprint Goal:'' @ [NL] @ v @ [NL])"

definition scopeCreepDetectorPrompt :: "ScopeCreepInput \<Rightarrow> jsstring" where
  "scopeCreepDetectorPrompt input =
     creepPromptHead @ currentTasksText input @ [NL, NL] @
     originalTasksSection input @ [NL] @ sprintGoalSectionSC input @ creepPromptTail"

definition scopeCreepDetectorFlow ::
  "ScopeCreepOutput model \<Rightarrow> ScopeCreepInput \<Rightarrow> jsstring list \<times> (rejection + ScopeCreepOutput)" where
  "scopeCreepDetectorFlow model input =
     (case ScopeCreepInputSchema input of
        Inl invalid \<Rightarrow> ([], Inl invalid)
      | Inr valid \<Rightarrow>
          (let p = scopeCreepDetectorPrompt valid in
           ([p],
            case model p of
              Threw error \<Rightarrow> Inl (Failed error)
            | Output None \<Rightarrow>
                Inl (Failed (Error (js ''AI did not return a valid scope creep analysis.'')))
            | Output (Some output) \<Rightarrow> Inr output)))"

definition detectScopeCreep ::
  "ScopeCreepOutput model \<Rightarrow> ScopeCreepInput \<Rightarrow> jsstring list \<times> (rejection + ScopeCreepOutput)" where
  "detectScopeCreep model input = scopeCreepDetectorFlow model input"

text \<open>
  The situation the specification singles out for the classification: a baseline is
  given, every line of it is a line of the current tasks, and the current tasks have a
  line that the baseline has not.
\<close>

definition addsNewLines :: "ScopeCreepInput \<Rightarrow> bool" where
  "addsNewLines input =
     (case originalTasksText input of
        None \<Rightarrow> False
      | Some original \<Rightarrow>
          set (split_at NL original) \<subseteq> set (split_at NL (currentTasksText input)) \<and>
          \<not> set (split_at NL (currentTasksText input)) \<subseteq> set (split_at NL original))"

section \<open>Tasks and the task store\<close>

datatype Priority = Low | Medium | High | Critical

fun priorityText :: "Priority \<Rightarrow> jsstring" where
  "priorityText Low = js ''Low''"
| "priorityText Medium = js ''Medium''"
| "priorityText High = js ''High''"
| "priorityText Critical = js ''Critical''"

text \<open>
  A task document as stored under \<^verbatim>\<open>projects/{projectId}/tasks/{taskId}\<close>, and a
  \<^verbatim>\<open>Task\<close>, which is the document together with its \<^verbatim>\<open>id\<close> (here \<open>task_id\<close>). A \<^verbatim>\<open>Date\<close> or
  \<^verbatim>\<open>Timestamp\<close> is a number of milliseconds. A field that is \<open>None\<close> is absent.
\<close>

record TaskDoc =
  title :: jsstring
  description :: jsstring
  status :: jsstring
  category :: "jsstring option"
  createdAt :: nat
  assignee :: "jsstring option"
  projectId :: jsstring
  priority :: "Priority option"
  effort :: "jsnumber option"

record Task = TaskDoc +
  task_id :: jsstring

text \<open>Of a project document the task actions read only \<^verbatim>\<open>ownerId\<close>.\<close>

record ProjectDoc =
  ownerId :: "jsstring option"

text \<open>
  The requests the task actions make: \<^verbatim>\<open>getDoc\<close> of a project, \<^verbatim>\<open>getDocs\<close> of a
  project's task collection, \<^verbatim>\<open>setDoc\<close> and \<^verbatim>\<open>deleteDoc\<close> of one task document.
\<close>

datatype fsop =
    GetProject jsstring
  | QueryTasks jsstring
  | SetTask jsstring jsstring
  | DeleteTask jsstring jsstring

fun touchesTasks :: "fsop \<Rightarrow> bool" where
  "touchesTasks (GetProject p) = False"
| "touchesTasks (QueryTasks p) = True"
| "touchesTasks (SetTask p t) = True"
| "touchesTasks (DeleteTask p t) = True"

text \<open>
  The database: the project documents, the task documents keyed by project id and task
  id, and the requests that fail when made (each such request throws).
\<close>

record Firestore =
  projects :: "jsstring \<rightharpoonup> ProjectDoc"
  tasks :: "((jsstring \<times> jsstring) \<times> TaskDoc) list"
  failing :: "fsop \<Rightarrow> bool"

text \<open>
  \<^verbatim>\<open>query(tasksColRef, orderBy('createdAt', 'desc'))\<close>: the task documents of one project,
  latest first. Documents with the same time stamp come in the reverse of their order in
  the store (the database orders them by document id).
\<close>

definition tasksByCreatedAtDesc :: "Firestore \<Rightarrow> jsstring \<Rightarrow> (jsstring \<times> TaskDoc) list" where
  "tasksByCreatedAtDesc db projId =
     rev (sort_key (\<lambda>(i, d). createdAt d)
       (map (\<lambda>((p, i), d). (i, d)) (filter (\<lambda>((p, i), d). p = projId) (tasks db))))"

text \<open>
  \<^verbatim>\<open>setDoc(taskRef, updateData, { merge: true })\<close>: the fields given replace the stored
  ones, the absent optional fields keep their stored values; a document that does not
  exist is created.
\<close>

definition mergeDoc :: "TaskDoc \<Rightarrow> TaskDoc \<Rightarrow> TaskDoc" where
  "mergeDoc old new =
     new\<lparr>category := (case category new of None \<Rightarrow> category old | Some c \<Rightarrow> Some c),
         assignee := (case assignee new of None \<Rightarrow> assignee old | Some a \<Rightarrow> Some a),
         priority := (case priority new of None \<Rightarrow> priority old | Some p \<Rightarrow> Some p),
         effort := (case effort new of None \<Rightarrow> effort old | Some e \<Rightarrow> Some e)\<rparr>"

definition setDocMerge ::
  "(jsstring \<times> jsstring) \<Rightarrow> TaskDoc \<Rightarrow> ((jsstring \<times> jsstring) \<times> TaskDoc) list
     \<Rightarrow> ((jsstring \<times> jsstring) \<times> TaskDoc) list" where
  "setDocMerge key new docs =
     (if key \<in> fst ` set docs
      then map (\<lambda>(k, old). if k = key then (k, mergeDoc old new) else (k, old)) docs
      else docs @ [(key, new)])"

definition deleteDoc ::
  "(jsstring \<times> jsstring) \<Rightarrow> ((jsstring \<times> jsstring) \<times> TaskDoc) list
     \<Rightarrow> ((jsstring \<times> jsstring) \<times> TaskDoc) list" where
  "deleteDoc key docs = filter (\<lambda>(k, d). k \<noteq> key) docs"

text \<open>
  The guard every task action starts with: the project document is read, and the action
  goes on only if it exists and its \<^verbatim>\<open>ownerId\<close> is the calling user.
\<close>

definition ownsProject :: "Firestore \<Rightarrow> jsstring \<Rightarrow> jsstring \<Rightarrow> bool" where
  "ownsProject db projId userId =
     (case projects db projId of None \<Rightarrow> False | Some p \<Rightarrow> ownerId p = Some userId)"

section \<open>Task server actions\<close>

text \<open>
  Each action gets the database handle of \<^verbatim>\<open>_getDbInstance\<close> (\<open>None\<close> when the
  configuration is incomplete or the initialisation fails) and returns its result, the
  database afterwards and the requests it made, in order. Any exception inside an action
  is caught there and turns into the action's empty result.
\<close>

definition getTasksByProjectId ::
  "Firestore option \<Rightarrow> jsstring \<Rightarrow> jsstring \<Rightarrow> Task list \<times> fsop list" where
  "getTasksByProjectId dbInstance projId userId =
     (case dbInstance of
        None \<Rightarrow> ([], [])
      | Some db \<Rightarrow>
          if userId = [] \<or> projId = [] then ([], [])
          else if failing db (GetProject projId) then ([], [GetProject projId])
          else if \<not> ownsProject db projId userId then ([], [GetProject projId])
          else if failing db (QueryTasks projId)
          then ([], [GetProject projId, QueryTasks projId])
          else
            (map (\<lambda>(i, data).
                    \<lparr>title = title data, description = description data, status = status data,
                     category = category data, createdAt = createdAt data,
                     assignee = assignee data, projectId = projId,
                     priority = priority data, effort = effort data, task_id = i\<rparr>)
               (tasksByCreatedAtDesc db projId),
             [GetProject projId, QueryTasks projId]))"

definition updateTask ::
  "Firestore option \<Rightarrow> Task \<Rightarrow> jsstring \<Rightarrow> Task option \<times> Firestore option \<times> fsop list" where
  "updateTask dbInstance taskData userId =
     (case dbInstance of
        None \<Rightarrow> (None, None, [])
      | Some db \<Rightarrow>
          if userId = [] \<or> projectId taskData = [] \<or> task_id taskData = []
          then (None, Some db, [])
          else if failing db (GetProject (projectId taskData))
          then (None, Some db, [GetProject (projectId taskData)])
          else if \<not> ownsProject db (projectId taskData) userId
          then (None, Some db, [GetProject (projectId taskData)])
          else if failing db (SetTask (projectId taskData) (task_id taskData))
          then (None, Some db,
                [GetProject (projectId taskData), SetTask (projectId taskData) (task_id taskData)])
          else
            (Some taskData,
             Some (db\<lparr>tasks :=
                setDocMerge (projectId taskData, task_id taskData)
                  \<lparr>title = title taskData, description = description taskData,
                   status = status taskData, category = category taskData,
                   createdAt = createdAt taskData, assignee = assignee taskData,
                   projectId = projectId taskData, priority = priority taskData,
                   effort = effort taskData\<rparr>
                  (tasks db)\<rparr>),
             [GetProject (projectId taskData), SetTask (projectId taskData) (task_id taskData)]))"

definition deleteTask ::
  "Firestore option \<Rightarrow> jsstring \<Rightarrow> jsstring \<Rightarrow> jsstring
     \<Rightarrow> bool \<times> Firestore option \<times> fsop list" where
  "deleteTask dbInstance projId taskId userId =
     (case dbInstance of
        None \<Rightarrow> (False, None, [])
      | Some db \<Rightarrow>
          if userId = [] \<or> projId = [] \<or> taskId = [] then (False, Some db, [])
          else if failing db (GetProject projId) then (False, Some db, [GetProject projId])
          else if \<not> ownsProject db projId userId
          then (False, Some db, [GetProject projId])
          else if failing db (DeleteTask projId taskId)
          then (False, Some db, [GetProject projId, DeleteTask projId taskId])
          else
            (True, Some (db\<lparr>tasks := deleteDoc (projId, taskId) (tasks db)\<rparr>),
             [GetProject projId, DeleteTask projId taskId]))"

section \<open>Sprint planner page: loading the tasks of the active project\<close>

record User =
  user_id :: jsstring
  email :: jsstring
  name :: jsstring
  avatar :: "jsstring option"

definition getUserScopedKey :: "jsstring \<Rightarrow> jsstring option \<Rightarrow> jsstring" where
  "getUserScopedKey baseKey userId =
     (case userId of
        None \<Rightarrow> baseKey @ js ''-unauthenticated''
      | Some u \<Rightarrow> if u = [] then baseKey @ js ''-unauthenticated'' else baseKey @ js ''-'' @ u)"

text \<open>The separator of a task line: an en dash (U+2013) between two spaces.\<close>

definition dash :: jsstring where
  "dash = js '' '' @ [0x2013] @ js '' ''"

text \<open>The line made of one task: \<^verbatim>\<open>`${title} \<dots> ${priority} \<dots> ${effort}`\<close>.\<close>

definition taskLine :: "Task \<Rightarrow> jsstring" where
  "taskLine task =
     (let title = (if title task = [] then js ''Untitled Task'' else title task);
          priority = (case priority task of None \<Rightarrow> js ''N/A'' | Some p \<Rightarrow> priorityText p);
          effort = (case effort task of None \<Rightarrow> Zero | Some Zero \<Rightarrow> Zero | Some (NonZero t) \<Rightarrow> NonZero t)
      in title @ dash @ priority @ dash @ numberText effort)"

definition tasksLoadedText :: jsstring where
  "tasksLoadedText =
     [0x27] @ js ''To Do'' @ [0x27] @
     js '' tasks from your active project have been loaded. Format: Title '' @ [0x2013] @
     js '' Priority '' @ [0x2013] @ js '' Story Points.''"

definition noToDoTitle :: jsstring where
  "noToDoTitle = js ''No '' @ [0x27] @ js ''To Do'' @ [0x27] @ js '' Tasks''"

definition noToDoText :: jsstring where
  "noToDoText =
     js ''No tasks found in the '' @ [0x27] @ js ''To Do'' @ [0x27] @
     js '' column of your active project.''"

text \<open>
  \<^verbatim>\<open>handleFetchProjectTasks\<close>. \<open>getTasks\<close> is the call of the server action
  \<^verbatim>\<open>getTasksByProjectId\<close> as the page sees it (the call itself may be rejected),
  \<open>localStorage\<close> the browser's store.
\<close>

definition handleFetchProjectTasks ::
  "(jsstring \<Rightarrow> jsstring \<Rightarrow> jserror + Task list) \<Rightarrow> (jsstring \<rightharpoonup> jsstring) \<Rightarrow> User option
     \<Rightarrow> SprintPlannerPage \<Rightarrow> SprintPlannerPage" where
  "handleFetchProjectTasks getTasks localStorage user page =
     (case user of
        None \<Rightarrow>
          toast \<lparr>toastVariant = Destructive, toastTitle = js ''Error'',
                 toastDescription = js ''You must be logged in to load project tasks.''\<rparr> page
      | Some u \<Rightarrow>
          if user_id u = []
          then toast \<lparr>toastVariant = Destructive, toastTitle = js ''Error'',
                      toastDescription = js ''You must be logged in to load project tasks.''\<rparr> page
          else
            (let page1 = page\<lparr>isFetchingProjectTasks := True\<rparr>;
                 activeProjectIdKey =
                   getUserScopedKey (js ''taskMasterActiveProjectId'') (Some (user_id u));
                 noActiveProject =
                   (toast \<lparr>toastVariant = Destructive, toastTitle = js ''No Active Project'',
                           toastDescription =
                             js ''Please select a project on the board page first.''\<rparr> page1)
                   \<lparr>isFetchingProjectTasks := False\<rparr>
             in case localStorage activeProjectIdKey of
                  None \<Rightarrow> noActiveProject
                | Some activeProjectId \<Rightarrow>
                    if activeProjectId = [] then noActiveProject
                    else
                      (case getTasks activeProjectId (user_id u) of
                         Inl error \<Rightarrow>
                           toast \<lparr>toastVariant = Destructive, toastTitle = js ''Error Loading Tasks'',
                                  toastDescription = js ''Could not load tasks. Check console logs.''\<rparr>
                             page1
                       | Inr projectTasks \<Rightarrow>
                           if projectTasks \<noteq> []
                           then
                             (let todoTasks = filter (\<lambda>task. status task = js ''To Do'') projectTasks
                              in if todoTasks \<noteq> []
                                 then
                                   toast \<lparr>toastVariant = Default, toastTitle = js ''Tasks Loaded'',
                                          toastDescription = tasksLoadedText\<rparr>
                                     (page1\<lparr>formTasksText := join_with [NL] (map taskLine todoTasks)\<rparr>)
                                 else
                                   toast \<lparr>toastVariant = Default, toastTitle = noToDoTitle,
                                          toastDescription = noToDoText\<rparr>
                                     (page1\<lparr>formTasksText := []\<rparr>))
                           else
                             toast \<lparr>toastVariant = Default, toastTitle = js ''No Tasks Found'',
                                    toastDescription =
                                      js ''No tasks found for the active project in Firestore.''\<rparr>
                               (page1\<lparr>formTasksText := []\<rparr>))
                      \<lparr>isFetchingProjectTasks := False\<rparr>))"

section \<open>Risk-analysis flow\<close>

record RiskAnalysisInput =
  tasksJsonRA :: jsstring
  teamContext :: "jsstring option"

datatype RiskLevel = RiskLow | RiskMedium | RiskHigh | RiskCritical

record TaskSummary =
  summaryId :: jsstring
  summaryTitle :: jsstring
  summaryPriority :: "jsstring option"

record MemberRisk =
  memberIdOrName :: jsstring
  memberRiskLevel :: RiskLevel
  memberRiskFactors :: "jsstring list"
  relevantTasksSummary :: "TaskSummary list"

record TaskRisk =
  riskTaskId :: jsstring
  riskTaskTitle :: jsstring
  taskRiskLevel :: RiskLevel
  taskRiskFactors :: "jsstring list"

record RiskAnalysisOutput =
  memberRiskAnalysis :: "MemberRisk list"
  taskRiskAnalysis :: "TaskRisk list"
  overallAssessment :: jsstring
  recommendationsRA :: "jsstring list"

text \<open>
  \<^verbatim>\<open>RiskAnalysisInputSchema\<close> declares \<^verbatim>\<open>tasksJson\<close> as \<^verbatim>\<open>z.string()\<close> and
  \<^verbatim>\<open>teamContext\<close> as an optional string: every record of \<open>RiskAnalysisInput\<close> passes
  it. The fixed text of the prompt template:
\<close>

definition riskPromptHead :: jsstring where
  "riskPromptHead = join_with [NL]
     [js ''You are an expert Agile Coach and Project Manager specializing in risk '' @
        js ''assessment for software development sprints.'',
      js ''Your task is to analyze a list of tasks and provide a risk report.'',
      [],
      js ''You will be provided with:'',
      js ''1.  **Tasks JSON:** A JSON string representing an array of tasks. Each '' @
        js ''task includes an id, title, status, and may include an assignee, priority '' @ js ''('' @
        [0x27] @ js ''Low'' @ [0x27] @ js '', '' @ [0x27] @ js ''Medium'' @ [0x27] @ js '', '' @
        [0x27] @ js ''High'' @ [0x27] @ js '', '' @ [0x27] @ js ''Critical'' @ [0x27] @
        js ''), and effort (numeric).'',
      js ''2.  **Team Context (Optional):** A brief text description of the team '' @
        js ''(e.g., '' @ [0x22] @
        js ''Team of 5 developers, 2-week sprint, focus on backend features'' @ [0x22] @ js '', '' @
        [0x22] @ js ''Team is new to this technology'' @ [0x22] @ js '').'',
      [],
      js ''Your Analysis Steps:'',
      js ''1.  **Parse Tasks:** Interpret the tasks from the provided JSON string.'',
      js ''2.  **Member-Level Risk Assessment:**'',
      js ''    a.  Identify unique assignees from the tasks. These are your team '' @
        js ''members for this analysis.'',
      js ''    b.  For each member, assess their risk level ('' @ [0x22] @ js ''Low'' @ [0x22] @
        js '', '' @ [0x22] @ js ''Medium'' @ [0x22] @ js '', '' @ [0x22] @ js ''High'' @ [0x22] @
        js '', '' @ [0x22] @ js ''Critical'' @ [0x22] @ js '') based on:'',
      js ''        - The number of tasks assigned.'',
      js ''        - The number of '' @ [0x27] @ js ''High'' @ [0x27] @ js '' or '' @ [0x27] @
        js ''Critical'' @ [0x27] @ js '' priority tasks assigned.'',
      js ''        - The total '' @ [0x27] @ js ''effort'' @ [0x27] @
        js '' of tasks assigned, if effort data is present and seems significant.'',
      js ''        - If '' @ [0x27] @ js ''teamContext'' @ [0x27] @
        js '' suggests constraints (e.g., a junior member, someone part-time), factor '' @
        js ''that in.'',
      js ''    c.  List specific '' @ [0x27] @ js ''riskFactors'' @ [0x27] @
        js '' for each member (e.g., '' @ [0x22] @ js ''3 Critical tasks assigned'' @ [0x22] @
        js '', '' @ [0x22] @
        js ''Total effort of 15 points exceeds typical individual capacity of 10'' @ [0x22] @
        js '').'',
      js ''    d.  Include a '' @ [0x27] @ js ''relevantTasksSummary'' @ [0x27] @
        js '' listing key tasks (id, title, priority) contributing to their risk.'',
      js ''3.  **Task-Level Risk Assessment:**'',
      js ''    a.  Identify tasks that pose a risk. Focus on tasks that are:'',
      js ''        - '' @ [0x27] @ js ''High'' @ [0x27] @ js '' or '' @ [0x27] @ js ''Critical'' @
        [0x27] @ js '' priority but have no assignee.'',
      js ''        - '' @ [0x27] @ js ''High'' @ [0x27] @ js '' or '' @ [0x27] @ js ''Critical'' @
        [0x27] @ js '' priority and are assigned to a member you'' @ [0x27] @
        js ''ve identified as '' @ [0x27] @ js ''High'' @ [0x27] @ js '' or '' @ [0x27] @
        js ''Critical'' @ [0x27] @ js '' risk.'',
      js ''        - Have unusually high effort if assigned to a single individual '' @
        js ''who might be a bottleneck.'',
      js ''    b.  Assign a '' @ [0x27] @ js ''riskLevel'' @ [0x27] @
        js '' to these tasks and list '' @ [0x27] @ js ''riskFactors'' @ [0x27] @ js ''.'',
      js ''4.  **Overall Assessment:** Provide a brief summary of the sprint'' @ [0x27] @
        js ''s risk profile.'',
      js ''5.  **Recommendations:** Offer 2-3 actionable recommendations to mitigate '' @
        js ''the highest-priority risks.'',
      [],
      js ''Input Details:'',
      js ''Tasks JSON:'',
      []]"

definition riskPromptTail :: jsstring where
  "riskPromptTail = join_with [NL]
     [[],
      js ''Structure your entire response strictly according to the '' @
        js ''RiskAnalysisOutputSchema.'',
      js ''Focus on identifying assignees from the tasks provided. If a task has no '' @
        js ''assignee, note that as a risk for high-priority items.'',
      js ''Base '' @ [0x22] @ js ''overload'' @ [0x22] @
        js '' on the quantity and priority of tasks provided in the input for each '' @
        js ''assignee. Do not assume external knowledge of team capacity unless given '' @
        js ''in teamContext.'',
      js ''Prioritize actionable insights.'',
      []]"

definition teamContextSection :: "RiskAnalysisInput \<Rightarrow> jsstring" where
  "teamContextSection input =
     ifString (teamContext input) (\<lambda>v. js ''Team Context:'' @ [NL] @ v @ [NL])"

definition sprintRiskAnalysisPrompt :: "RiskAnalysisInput \<Rightarrow> jsstring" where
  "sprintRiskAnalysisPrompt input =
     riskPromptHead @ tasksJsonRA input @ [NL, NL] @ teamContextSection input @ riskPromptTail"

definition riskAnalysisFlow :: "RiskAnalysisOutput model \<Rightarrow> RiskAnalysisInput \<Rightarrow> RiskAnalysisOutput outcome" where
  "riskAnalysisFlow model input =
     (let p = sprintRiskAnalysisPrompt input in
      ([p],
       case model p of
         Threw error \<Rightarrow> Inl error
       | Output None \<Rightarrow> Inl (Error (js ''AI did not return a valid risk analysis.''))
       | Output (Some output) \<Rightarrow> Inr output))"

definition analyzeSprintRisks :: "RiskAnalysisOutput model \<Rightarrow> RiskAnalysisInput \<Rightarrow> RiskAnalysisOutput outcome" where
  "analyzeSprintRisks model input = riskAnalysisFlow model input"

section \<open>Retrospective flow\<close>

record SprintRetrospectiveInput =
  tasksJsonSR :: jsstring
  sprintGoalSR :: "jsstring option"
  teamSentiment :: "jsstring option"
  additionalNotes :: "jsstring option"

record SprintRetrospectiveOutput =
  sprintSummary :: jsstring
  whatWentWell :: "jsstring list"
  whatCouldBeImproved :: "jsstring list"
  actionItems :: "jsstring list"

text \<open>
  \<^verbatim>\<open>SprintRetrospectiveInputSchema\<close> declares \<^verbatim>\<open>tasksJson\<close> as \<^verbatim>\<open>z.string()\<close> and
  three optional strings: every record of \<open>SprintRetrospectiveInput\<close> passes it. The
  fixed text of the prompt template:
\<close>

definition retroPromptHead :: jsstring where
  "retroPromptHead = join_with [NL]
     [js ''You are an expert Agile Coach facilitating a sprint retrospective.'',
      js ''Your goal is to help the team reflect on the past sprint and identify key '' @
        js ''learnings and improvements.'',
      [],
      js ''You will be provided with:'',
      js ''1.  **Tasks JSON:** A JSON string of tasks from the sprint. Analyze this '' @
        js ''for completion rates (tasks with status '' @ [0x27] @ js ''Done'' @ [0x27] @
        js '' are considered completed), types of tasks completed vs. not, any '' @
        js ''apparent delays (e.g., many '' @ [0x27] @ js ''In Progress'' @ [0x27] @
        js '' tasks, or high-priority tasks not '' @ [0x27] @ js ''Done'' @ [0x27] @
        js ''), and patterns.'',
      js ''2.  **Sprint Goal (Optional):** The stated objective of the sprint. '' @
        js ''Assess if the completed tasks align with this goal.'',
      js ''3.  **Team Sentiment (Optional):** User'' @ [0x27] @ js ''s input on the team'' @
        [0x27] @ js ''s general mood or significant non-task events. Incorporate this into the '' @
        js ''tone and focus of the retrospective.'',
      js ''4.  **Additional Notes (Optional):** Other observations like commit '' @
        js ''summaries or external factors. Use this to enrich the context.'',
      [],
      js ''Based on all available inputs, generate a balanced and constructive '' @
        js ''retrospective. Structure your response strictly according to the '' @
        js ''SprintRetrospectiveOutputSchema.'',
      [],
      js ''Your Analysis Steps:'',
      js ''1.  **Sprint Summary:** Write a concise (2-3 sentences) overview of the '' @
        js ''sprint. Mention if the sprint goal (if provided) was met, and give a '' @
        js ''general sense of accomplishment based on task completion.'',
      js ''2.  **What Went Well:** Identify 3-5 positive aspects. Consider:'',
      js ''    *   Successfully completed tasks, especially high-priority ones or '' @
        js ''those aligned with the sprint goal.'',
      js ''    *   Positive team sentiment or collaboration mentioned.'',
      js ''    *   Efficient handling of certain task types (if discernible from '' @
        js ''descriptions/categories).'',
      js ''    *   Overcoming challenges mentioned in notes.'',
      js ''3.  **What Could Be Improved:** Identify 3-5 areas for improvement. '' @
        js ''Consider:'',
      js ''    *   Tasks not completed, especially if high-priority or goal-related.'',
      js ''    *   Potential bottlenecks (e.g., many tasks stuck '' @ [0x27] @ js ''In Review'' @
        [0x27] @ js '', or tasks with high effort still '' @ [0x27] @ js ''In Progress'' @ [0x27] @
        js '').'',
      js ''    *   Negative team sentiment or challenges mentioned.'',
      js ''    *   Deviation from the sprint goal.'',
      js ''    *   Recurring issues if patterns are visible in task '' @
        js ''descriptions/categories (e.g., '' @ [0x22] @
        js ''multiple bug fixes related to X component'' @ [0x22] @ js '').'',
      js ''4.  **Action Items:** Suggest 2-3 concrete, actionable steps for the next '' @
        js ''sprint based on '' @ [0x22] @ js ''What Could Be Improved.'' @ [0x22] @
        js '' Make them specific and achievable. For example, instead of '' @ [0x22] @
        js ''Improve testing,'' @ [0x22] @ js '' suggest '' @ [0x22] @
        js ''Dedicate specific time for integration testing before sprint review.'' @ [0x22],
      [],
      js ''Input Details:'',
      js ''Tasks JSON:'',
      []]"

definition retroPromptTail :: jsstring where
  "retroPromptTail = join_with [NL]
     [[],
      js ''Provide a thoughtful and objective retrospective. Focus on processes and '' @
        js ''outcomes, not on blaming individuals.'',
      js ''Ensure each section (whatWentWell, whatCouldBeImproved, actionItems) '' @
        js ''contains distinct points.'',
      []]"

definition sprintGoalSectionSR :: "SprintRetrospectiveInput \<Rightarrow> jsstring" where
  "sprintGoalSectionSR input =
     ifString (sprintGoalSR input) (\<lambda>v. js ''Sprint Goal:'' @ [NL] @ v @ [NL])"

definition teamSentimentSection :: "SprintRetrospectiveInput \<Rightarrow> jsstring" where
  "teamSentimentSection input =
     ifString (teamSentiment input) (\<lambda>v. js ''Team Sentiment:'' @ [NL] @ v @ [NL])"

definition additionalNotesSection :: "SprintRetrospectiveInput \<Rightarrow> jsstring" where
  "additionalNotesSection input =
     ifString (additionalNotes input) (\<lambda>v. js ''Additional Notes:'' @ [NL] @ v @ [NL])"

definition sprintRetrospectivePrompt :: "SprintRetrospectiveInput \<Rightarrow> jsstring" where
  "sprintRetrospectivePrompt input =
     retroPromptHead @ tasksJsonSR input @ [NL, NL] @
     sprintGoalSectionSR input @ [NL] @ teamSentimentSection input @ [NL] @
     additionalNotesSection input @ retroPromptTail"

text \<open>
  \<^verbatim>\<open>generateSprintRetrospectiveFlow\<close>. Its body first tries \<^verbatim>\<open>JSON.parse\<close> on the task
  text inside a \<^verbatim>\<open>try\<close> whose \<^verbatim>\<open>catch\<close> only logs; whatever the text is, the flow
  goes on to call the model.
\<close>

definition generateSprintRetrospectiveFlow ::
  "SprintRetrospectiveOutput model \<Rightarrow> SprintRetrospectiveInput \<Rightarrow> SprintRetrospectiveOutput outcome" where
  "generateSprintRetrospectiveFlow model input =
     (let p = sprintRetrospectivePrompt input in
      ([p],
       case model p of
         Threw error \<Rightarrow> Inl error
       | Output None \<Rightarrow> Inl (Error (js ''AI did not return a valid sprint retrospective.''))
       | Output (Some output) \<Rightarrow> Inr output))"

definition generateSprintRetrospective ::
  "SprintRetrospectiveOutput model \<Rightarrow> SprintRetrospectiveInput \<Rightarrow> SprintRetrospectiveOutput outcome" where
  "generateSprintRetrospective model input = generateSprintRetrospectiveFlow model input"

section \<open>Scope-creep, risk-analysis and retrospective pages\<close>






section \<open>Example data\<close>

text \<open>Three models: one that returns no output, one that throws, one that replies.\<close>

definition silentModel :: "'o model" where
  "silentModel p = Output None"

definition failingModel :: "jserror \<Rightarrow> 'o model" where
  "failingModel error p = Threw error"

definition replyingModel :: "'o \<Rightarrow> 'o model" where
  "replyingModel output p = Output (Some output)"

text \<open>
  The input of the specification's first scenario: the task \<^verbatim>\<open>Fix bug\<close> twice, then
  \<^verbatim>\<open>Write docs\<close>, and a sprint of two weeks.
\<close>

definition scenarioInput :: SprintPlanInput where
  "scenarioInput =
     \<lparr>tasksText =
        js ''Fix bug'' @ dash @ js ''High'' @ dash @ js ''3'' @ [NL] @
        js ''Fix bug'' @ dash @ js ''High'' @ dash @ js ''3'' @ [NL] @
        js ''Write docs'' @ dash @ js ''Low'' @ dash @ js ''1'',
      sprintDuration = Some (js ''2 weeks''), teamSize = None,
      teamStoryPointCapacity = None, sprintGoal = None\<rparr>"

definition fullInput :: SprintPlanInput where
  "fullInput =
     \<lparr>tasksText = js ''Fix bug'', sprintDuration = Some (js ''2 weeks''),
      teamSize = Some (js ''3 developers''),
      teamStoryPointCapacity = Some (NonZero (js ''20'')), sprintGoal = Some (js ''Ship login'')\<rparr>"

definition zeroCapacityInput :: SprintPlanInput where
  "zeroCapacityInput =
     \<lparr>tasksText = js ''Fix bug'', sprintDuration = Some (js ''2 weeks''), teamSize = Some [],
      teamStoryPointCapacity = Some Zero, sprintGoal = None\<rparr>"

definition emptyTasksInput :: SprintPlanInput where
  "emptyTasksInput =
     \<lparr>tasksText = [], sprintDuration = None, teamSize = None,
      teamStoryPointCapacity = None, sprintGoal = None\<rparr>"

definition scenarioPlan :: SprintPlanOutput where
  "scenarioPlan =
     \<lparr>sprintPlan = js ''## Sprint Plan\<newline>- Fix bug\<newline>## Deferred Tasks\<newline>None'',
      warningsOrSuggestions = None\<rparr>"

definition headlessPlan :: SprintPlanOutput where
  "headlessPlan = \<lparr>sprintPlan = js ''# Plan\<newline>- Fix bug'', warningsOrSuggestions = None\<rparr>"

text \<open>A page that still shows the plan of an earlier submission.\<close>

definition stalePage :: SprintPlannerPage where
  "stalePage =
     \<lparr>aiResponse = Some scenarioPlan, isSubmittingToAI = False,
      isFetchingProjectTasks = False, formTasksText = js ''old text'', toasts = []\<rparr>"

definition pageFallback :: jsstring where
  "pageFallback = js ''Could not generate sprint plan. Please try again.''"

definition creepScenarioInput :: ScopeCreepInput where
  "creepScenarioInput =
     \<lparr>currentTasksText = js ''Login page\<newline>Signup page'',
      originalTasksText = Some (js ''Login page''), sprintGoalSC = Some (js ''Ship login'')\<rparr>"

definition emptyCurrentInput :: ScopeCreepInput where
  "emptyCurrentInput =
     \<lparr>currentTasksText = [], originalTasksText = Some (js ''Login page''), sprintGoalSC = None\<rparr>"

definition creepNoneReply :: ScopeCreepOutput where
  "creepNoneReply =
     \<lparr>analysisReport = js ''Scope is stable.'', creepLevel = CreepNone, recommendations = None\<rparr>"

definition creepLowReply :: ScopeCreepOutput where
  "creepLowReply =
     \<lparr>analysisReport = js ''One task was added.'', creepLevel = CreepLow, recommendations = None\<rparr>"


text \<open>
  Inputs of the risk-analysis and retrospective flows: the task of the second scenario
  with a team context, the same without, and inputs with an empty task text.
\<close>

definition scenarioTasksJson :: jsstring where
  "scenarioTasksJson =
     js ''[{'' @ [0x22] @ js ''id'' @ [0x22] @ js '':'' @ [0x22] @ js ''1'' @ [0x22] @ js '','' @
     [0x22] @ js ''title'' @ [0x22] @ js '':'' @ [0x22] @ js ''T1'' @ [0x22] @ js '','' @
     [0x22] @ js ''status'' @ [0x22] @ js '':'' @ [0x22] @ js ''To Do'' @ [0x22] @ js '','' @
     [0x22] @ js ''priority'' @ [0x22] @ js '':'' @ [0x22] @ js ''Critical'' @ [0x22] @ js ''}]''"

definition riskInput :: RiskAnalysisInput where
  "riskInput = \<lparr>tasksJsonRA = scenarioTasksJson, teamContext = Some (js ''Team of 5'')\<rparr>"

definition bareRiskInput :: RiskAnalysisInput where
  "bareRiskInput = \<lparr>tasksJsonRA = scenarioTasksJson, teamContext = None\<rparr>"

definition emptyRiskInput :: RiskAnalysisInput where
  "emptyRiskInput = \<lparr>tasksJsonRA = [], teamContext = Some []\<rparr>"

definition riskReply :: RiskAnalysisOutput where
  "riskReply =
     \<lparr>memberRiskAnalysis = [],
      taskRiskAnalysis =
        [\<lparr>riskTaskId = js ''1'', riskTaskTitle = js ''T1'', taskRiskLevel = RiskHigh,
          taskRiskFactors = [js ''No assignee for critical task'']\<rparr>],
      overallAssessment = js ''One critical task is unassigned.'',
      recommendationsRA = [js ''Assign T1.'']\<rparr>"


definition retroInput :: SprintRetrospectiveInput where
  "retroInput =
     \<lparr>tasksJsonSR = scenarioTasksJson, sprintGoalSR = Some (js ''Ship login''),
      teamSentiment = Some (js ''Energized''), additionalNotes = Some (js ''Server outage'')\<rparr>"

definition emptyRetroInput :: SprintRetrospectiveInput where
  "emptyRetroInput =
     \<lparr>tasksJsonSR = [], sprintGoalSR = None, teamSentiment = Some [], additionalNotes = None\<rparr>"

definition retroReply :: SprintRetrospectiveOutput where
  "retroReply =
     \<lparr>sprintSummary = js ''Nothing was finished.'', whatWentWell = [],
      whatCouldBeImproved = [js ''T1 is still open.''], actionItems = [js ''Assign T1.'']\<rparr>"



definition exampleUser :: User where
  "exampleUser =
     \<lparr>user_id = js ''ann'', email = js ''ann@example.com'', name = js ''ann'', avatar = None\<rparr>"

definition exampleStorage :: "jsstring \<rightharpoonup> jsstring" where
  "exampleStorage = [js ''taskMasterActiveProjectId-ann'' \<mapsto> js ''p1'']"

definition fixBugTask :: Task where
  "fixBugTask =
     \<lparr>title = js ''Fix bug'', description = js ''Crash on save'', status = js ''To Do'',
      category = None, createdAt = 3000, assignee = None, projectId = js ''p1'',
      priority = Some High, effort = Some (NonZero (js ''3'')), task_id = js ''task-1''\<rparr>"

definition untitledTask :: Task where
  "untitledTask =
     \<lparr>title = [], description = [], status = js ''To Do'',
      category = None, createdAt = 2000, assignee = None, projectId = js ''p1'',
      priority = None, effort = None, task_id = js ''task-2''\<rparr>"

definition doneTask :: Task where
  "doneTask =
     \<lparr>title = js ''Write docs'', description = [], status = js ''Done'',
      category = None, createdAt = 1000, assignee = None, projectId = js ''p1'',
      priority = Some Low, effort = Some (NonZero (js ''1'')), task_id = js ''task-3''\<rparr>"

text \<open>A database with one project, owned by \<^verbatim>\<open>ann\<close>, that holds one task.\<close>

definition exampleDb :: Firestore where
  "exampleDb =
     \<lparr>projects = [js ''p1'' \<mapsto> \<lparr>ownerId = Some (js ''ann'')\<rparr>],
      tasks = [((js ''p1'', js ''task-1''),
                \<lparr>title = js ''Fix bug'', description = js ''Crash on save'', status = js ''To Do'',
                 category = None, createdAt = 3000, assignee = None, projectId = js ''p1'',
                 priority = Some High, effort = Some (NonZero (js ''3''))\<rparr>)],
      failing = (\<lambda>request. False)\<rparr>"

section \<open>Facts about the string operations\<close>

lemma split_at_not_Nil: "split_at sep s \<noteq> []"
  by (induction s) (auto split: list.splits)

lemma split_at_no_sep: "l \<in> set (split_at sep s) \<Longrightarrow> sep \<notin> set l"
proof (induction s arbitrary: l)
  case Nil
  then show ?case by simp
next
  case (Cons c cs)
  show ?case
  proof (cases "c = sep")
    case True
    with Cons show ?thesis by auto
  next
    case False
    obtain h t where ht: "split_at sep cs = h # t"
      using split_at_not_Nil [of sep cs] by (cases "split_at sep cs") auto
    with False Cons.prems have "l = c # h \<or> l \<in> set t" by auto
    then show ?thesis
    proof
      assume "l = c # h"
      moreover have "sep \<notin> set h" using Cons.IH [of h] ht by simp
      ultimately show ?thesis using False by auto
    next
      assume "l \<in> set t"
      then show ?thesis using Cons.IH [of l] ht by simp
    qed
  qed
qed

lemma split_at_plain: "sep \<notin> set l \<Longrightarrow> split_at sep l = [l]"
  by (induction l) auto

lemma split_at_append_sep:
  "sep \<notin> set l \<Longrightarrow> split_at sep (l @ sep # r) = l # split_at sep r"
  by (induction l) auto

lemma split_at_join:
  "ls \<noteq> [] \<Longrightarrow> \<forall>l \<in> set ls. sep \<notin> set l \<Longrightarrow> split_at sep (join_with [sep] ls) = ls"
proof (induction "[sep]" ls rule: join_with.induct)
  case 1
  then show ?case by simp
next
  case (2 l)
  then show ?case by (simp add: split_at_plain)
next
  case (3 l m ls)
  then show ?case by (simp add: split_at_append_sep)
qed

lemma trim_subset: "set (trim s) \<subseteq> set s"
proof -
  have "set (trim s) \<subseteq> set (dropWhile isWhiteSpace s)"
    unfolding trim_def using set_dropWhileD by fastforce
  also have "\<dots> \<subseteq> set s" using set_dropWhileD by fastforce
  finally show ?thesis .
qed

lemma dropWhile_rev_dropWhile_rev:
  assumes "t = [] \<or> \<not> P (hd t)"
  shows "dropWhile P (rev (dropWhile P (rev t))) = rev (dropWhile P (rev t))"
proof (cases "dropWhile P (rev t) = []")
  case True
  then show ?thesis by (simp del: dropWhile_eq_Nil_conv)
next
  case False
  define u where "u = rev (dropWhile P (rev t))"
  have "rev t = takeWhile P (rev t) @ rev u"
    by (simp add: u_def)
  then have "t = u @ rev (takeWhile P (rev t))"
    by (metis rev_append rev_rev_ident)
  moreover have "u \<noteq> []" using False by (simp add: u_def)
  ultimately have "hd u = hd t" "t \<noteq> []"
    by (metis hd_append2, metis append_is_Nil_conv)
  with assms have "\<not> P (hd u)" by simp
  with \<open>u \<noteq> []\<close> have "dropWhile P u = u" by (cases u) auto
  then show ?thesis by (simp add: u_def)
qed

lemma trim_idem: "trim (trim s) = trim s"
proof -
  define t where "t = dropWhile isWhiteSpace s"
  have ht: "t = [] \<or> \<not> isWhiteSpace (hd t)"
    unfolding t_def by (metis hd_dropWhile)
  have "dropWhile isWhiteSpace (trim s) = trim s"
    unfolding trim_def t_def [symmetric] using ht by (rule dropWhile_rev_dropWhile_rev [where t = t and P = isWhiteSpace])
  then show ?thesis
    by (simp add: trim_def)
qed

lemma trim_Nil: "trim [] = []"
  by (simp add: trim_def)

section \<open>Facts about the filter\<close>

lemma keepUnseen_set: "set (keepUnseen seen xs) = {x \<in> set xs. x \<noteq> [] \<and> x \<notin> seen}"
  by (induction xs arbitrary: seen) auto

lemma keepUnseen_distinct: "distinct (keepUnseen seen xs)"
  by (induction xs arbitrary: seen) (auto simp: keepUnseen_set)

lemma keepUnseen_fixed:
  "distinct xs \<Longrightarrow> [] \<notin> set xs \<Longrightarrow> set xs \<inter> seen = {} \<Longrightarrow> keepUnseen seen xs = xs"
  by (induction xs arbitrary: seen) auto

lemma firstIndexOf_append_notin:
  "x \<notin> set p \<Longrightarrow> firstIndexOf x (p @ xs) = length p + firstIndexOf x xs"
  by (induction p) (auto simp: firstIndexOf_def)

lemma keepUnseen_first_seen_order:
  "seen = set p - {[]} \<Longrightarrow>
   sorted_wrt (\<lambda>a b. firstIndexOf a (p @ xs) < firstIndexOf b (p @ xs)) (keepUnseen seen xs)"
proof (induction xs arbitrary: p seen)
  case Nil
  then show ?case by simp
next
  case (Cons x xs)
  show ?case
  proof (cases "x = [] \<or> x \<in> seen")
    case True
    with Cons.prems have "seen = set (p @ [x]) - {[]}" by auto
    from Cons.IH [OF this] True show ?thesis by simp
  next
    case False
    with Cons.prems have xp: "x \<notin> set p" by auto
    have seen': "insert x seen = set (p @ [x]) - {[]}" using Cons.prems False by auto
    have later: "firstIndexOf x (p @ x # xs) < firstIndexOf b (p @ x # xs)"
      if "b \<in> set (keepUnseen (insert x seen) xs)" for b
    proof -
      from that have "b \<notin> set (p @ [x])"
        using seen' by (auto simp: keepUnseen_set)
      then have "firstIndexOf b ((p @ [x]) @ xs) = length (p @ [x]) + firstIndexOf b xs"
        by (rule firstIndexOf_append_notin)
      moreover have "firstIndexOf x (p @ x # xs) = length p"
        using xp by (simp add: firstIndexOf_append_notin) (simp add: firstIndexOf_def)
      ultimately show ?thesis by simp
    qed
    from Cons.IH [OF seen'] later False show ?thesis by simp
  qed
qed

lemma dedupLines_no_newline: "l \<in> set (dedupLines s) \<Longrightarrow> NL \<notin> set l"
proof -
  assume "l \<in> set (dedupLines s)"
  then obtain r where "r \<in> set (split_at NL s)" "l = trim r"
    by (auto simp: dedupLines_def keepUnseen_set)
  then show ?thesis
    using split_at_no_sep [of r NL s] trim_subset [of r] by auto
qed

lemma dedupLines_trimmed: "l \<in> set (dedupLines s) \<Longrightarrow> trim l = l"
  by (auto simp: dedupLines_def keepUnseen_set trim_idem)

lemma dedupLines_fixed:
  "dedupLines s \<noteq> [] \<Longrightarrow> dedupLines (deduplicateTasks s) = dedupLines s"
proof -
  assume ne: "dedupLines s \<noteq> []"
  have "split_at NL (deduplicateTasks s) = dedupLines s"
    unfolding deduplicateTasks_def
    using ne dedupLines_no_newline by (intro split_at_join) auto
  moreover have "map trim (dedupLines s) = dedupLines s"
    using dedupLines_trimmed by (induction "dedupLines s") (auto simp: map_idI)
  moreover have "keepUnseen {} (dedupLines s) = dedupLines s"
    by (rule keepUnseen_fixed)
      (auto simp: dedupLines_def keepUnseen_distinct keepUnseen_set)
  ultimately show ?thesis
    by (simp add: dedupLines_def [of "deduplicateTasks s"])
qed

lemma dedupLines_of_empty_result:
  "dedupLines s = [] \<Longrightarrow> dedupLines (deduplicateTasks s) = []"
  by (simp add: deduplicateTasks_def) (simp add: dedupLines_def trim_Nil)

lemma startsWith_append: "startsWith (p @ r) p"
  by (induction p) auto

lemma includesStr_prefix: "includesStr (p @ r) p"
proof (cases "p @ r")
  case Nil
  then show ?thesis by simp
next
  case (Cons c cs)
  have "startsWith (p @ r) p" by (rule startsWith_append)
  with Cons show ?thesis by simp
qed

lemma includesStr_append_left: "includesStr s p \<Longrightarrow> includesStr (a @ s) p"
  by (induction a) auto

lemma includesStr_middle: "includesStr (a @ p @ r) p"
  by (rule includesStr_append_left) (rule includesStr_prefix)

lemmas str_eval = js_def NL_def trim_def isWhiteSpace_def dedupLines_def deduplicateTasks_def

lemmas flow_eval = suggestSprintPlan_def sprintPlannerFlow_def Let_def

lemmas creep_eval = detectScopeCreep_def scopeCreepDetectorFlow_def ScopeCreepInputSchema_def Let_def

lemmas report_eval = analyzeSprintRisks_def riskAnalysisFlow_def generateSprintRetrospective_def
  generateSprintRetrospectiveFlow_def Let_def


lemmas section_eval = sprintPlannerPrompt_def sprintDurationSection_def teamSizeSection_def
  teamCapacitySection_def sprintGoalSectionSC_def sprintGoalSection_def originalTasksSection_def
  scopeCreepDetectorPrompt_def sprintRiskAnalysisPrompt_def teamContextSection_def
  sprintRetrospectivePrompt_def sprintGoalSectionSR_def teamSentimentSection_def
  additionalNotesSection_def ifString_def ifNumber_def

lemmas task_eval = taskLine_def dash_def js_def NL_def Let_def

section \<open>Facts about the flows and the notifications\<close>


lemma detectScopeCreep_result:
  "currentTasksText input \<noteq> [] \<Longrightarrow>
   detectScopeCreep model input =
     ([scopeCreepDetectorPrompt input],
      case model (scopeCreepDetectorPrompt input) of
        Threw error \<Rightarrow> Inl (Failed error)
      | Output None \<Rightarrow>
          Inl (Failed (Error (js ''AI did not return a valid scope creep analysis.'')))
      | Output (Some output) \<Rightarrow> Inr output)"
  by (cases input) (simp add: creep_eval)

lemma analyzeSprintRisks_result:
  "analyzeSprintRisks model input =
     ([sprintRiskAnalysisPrompt input],
      case model (sprintRiskAnalysisPrompt input) of
        Threw error \<Rightarrow> Inl error
      | Output None \<Rightarrow> Inl (Error (js ''AI did not return a valid risk analysis.''))
      | Output (Some output) \<Rightarrow> Inr output)"
  by (simp add: report_eval)

lemma generateSprintRetrospective_result:
  "generateSprintRetrospective model input =
     ([sprintRetrospectivePrompt input],
      case model (sprintRetrospectivePrompt input) of
        Threw error \<Rightarrow> Inl error
      | Output None \<Rightarrow> Inl (Error (js ''AI did not return a valid sprint retrospective.''))
      | Output (Some output) \<Rightarrow> Inr output)"
  by (simp add: report_eval)





lemma sprintPrompt_contains:
  "includesStr (sprintPlannerPrompt esc input) (sprintDurationSection esc input) \<and>
   includesStr (sprintPlannerPrompt esc input) (teamSizeSection esc input) \<and>
   includesStr (sprintPlannerPrompt esc input) (teamCapacitySection esc input) \<and>
   includesStr (sprintPlannerPrompt esc input) (sprintGoalSection esc input)"
proof -
  let ?d = "sprintDurationSection esc input" and ?s = "teamSizeSection esc input"
  let ?c = "teamCapacitySection esc input" and ?g = "sprintGoalSection esc input"
  let ?rest = "sprintPromptTaskList @ tasksText input @ sprintPromptTail"
  have "sprintPlannerPrompt esc input = sprintPromptHead @ ?d @ (?s @ ?c @ ?g @ ?rest)"
       "sprintPlannerPrompt esc input = (sprintPromptHead @ ?d) @ ?s @ (?c @ ?g @ ?rest)"
       "sprintPlannerPrompt esc input = (sprintPromptHead @ ?d @ ?s) @ ?c @ (?g @ ?rest)"
       "sprintPlannerPrompt esc input = (sprintPromptHead @ ?d @ ?s @ ?c) @ ?g @ ?rest"
    by (simp_all add: sprintPlannerPrompt_def)
  then show ?thesis
    by (metis includesStr_middle)
qed

lemma creepPrompt_contains:
  "includesStr (scopeCreepDetectorPrompt input) (originalTasksSection input) \<and>
   includesStr (scopeCreepDetectorPrompt input) (sprintGoalSectionSC input)"
proof -
  let ?o = "originalTasksSection input" and ?g = "sprintGoalSectionSC input"
  have "scopeCreepDetectorPrompt input =
          (creepPromptHead @ currentTasksText input @ [NL, NL]) @ ?o @ ([NL] @ ?g @ creepPromptTail)"
       "scopeCreepDetectorPrompt input =
          (creepPromptHead @ currentTasksText input @ [NL, NL] @ ?o @ [NL]) @ ?g @ creepPromptTail"
    by (simp_all add: scopeCreepDetectorPrompt_def)
  then show ?thesis
    by (metis includesStr_middle)
qed

lemma riskPrompt_contains:
  "includesStr (sprintRiskAnalysisPrompt input) (teamContextSection input)"
proof -
  have "sprintRiskAnalysisPrompt input =
          (riskPromptHead @ tasksJsonRA input @ [NL, NL]) @ teamContextSection input @ riskPromptTail"
    by (simp add: sprintRiskAnalysisPrompt_def)
  then show ?thesis
    by (metis includesStr_middle)
qed

lemma retroPrompt_contains:
  "includesStr (sprintRetrospectivePrompt input) (sprintGoalSectionSR input) \<and>
   includesStr (sprintRetrospectivePrompt input) (teamSentimentSection input) \<and>
   includesStr (sprintRetrospectivePrompt input) (additionalNotesSection input)"
proof -
  let ?g = "sprintGoalSectionSR input" and ?s = "teamSentimentSection input"
  let ?n = "additionalNotesSection input"
  let ?h = "retroPromptHead @ tasksJsonSR input @ [NL, NL]"
  have "sprintRetrospectivePrompt input = ?h @ ?g @ ([NL] @ ?s @ [NL] @ ?n @ retroPromptTail)"
       "sprintRetrospectivePrompt input = (?h @ ?g @ [NL]) @ ?s @ ([NL] @ ?n @ retroPromptTail)"
       "sprintRetrospectivePrompt input = (?h @ ?g @ [NL] @ ?s @ [NL]) @ ?n @ retroPromptTail"
    by (simp_all add: sprintRetrospectivePrompt_def)
  then show ?thesis
    by (metis includesStr_middle)
qed

lemma ifString_absent: "x = None \<or> x = Some [] \<Longrightarrow> ifString x body = []"
  by (auto simp: ifString_def)

lemma ifString_present: "x = Some v \<Longrightarrow> v \<noteq> [] \<Longrightarrow> ifString x body = body v"
  by (simp add: ifString_def)

section \<open>The claims\<close>

subsection \<open>C1: the sprint-plan flow prompts with the de-duplicated task list\<close>

text \<open>
  C1. For every input of the sprint-plan flow, \<^verbatim>\<open>suggestSprintPlan\<close> de-duplicates the
  task list before prompting. The one prompt sent upstream is rendered from the input
  with \<open>tasksText\<close> replaced by \<open>deduplicateTasks (tasksText input)\<close>. That text is the
  kept lines joined by line feeds, and read back line by line it gives exactly the kept
  lines (it is empty when no line is kept). The kept lines are pairwise distinct, they
  are exactly the non-empty trimmed lines of the input, and they stand in the order of
  their first occurrence among the trimmed input lines.
\<close>

theorem suggestSprintPlan_deduplicates:
  "fst (suggestSprintPlan esc model input) =
     [sprintPlannerPrompt esc (input\<lparr>tasksText := deduplicateTasks (tasksText input)\<rparr>)] \<and>
   deduplicateTasks (tasksText input) = join_with [NL] (dedupLines (tasksText input)) \<and>
   (if dedupLines (tasksText input) = [] then deduplicateTasks (tasksText input) = []
    else split_at NL (deduplicateTasks (tasksText input)) = dedupLines (tasksText input)) \<and>
   distinct (dedupLines (tasksText input)) \<and>
   set (dedupLines (tasksText input)) =
     {l \<in> trim ` set (split_at NL (tasksText input)). l \<noteq> []} \<and>
   sorted_wrt (\<lambda>a b. firstIndexOf a (map trim (split_at NL (tasksText input)))
                   < firstIndexOf b (map trim (split_at NL (tasksText input))))
     (dedupLines (tasksText input))"
proof -
  let ?t = "tasksText input"
  have sent: "fst (suggestSprintPlan esc model input) =
     [sprintPlannerPrompt esc (input\<lparr>tasksText := deduplicateTasks ?t\<rparr>)]"
    by (simp add: flow_eval)
  have lines: "dedupLines ?t \<noteq> [] \<Longrightarrow> split_at NL (deduplicateTasks ?t) = dedupLines ?t"
    unfolding deduplicateTasks_def
    using dedupLines_no_newline by (intro split_at_join) auto
  have empty: "dedupLines ?t = [] \<Longrightarrow> deduplicateTasks ?t = []"
    by (simp add: deduplicateTasks_def)
  have dist: "distinct (dedupLines ?t)"
    by (simp add: dedupLines_def keepUnseen_distinct)
  have elems: "set (dedupLines ?t) = {l \<in> trim ` set (split_at NL ?t). l \<noteq> []}"
    by (auto simp: dedupLines_def keepUnseen_set)
  have order: "sorted_wrt (\<lambda>a b. firstIndexOf a (map trim (split_at NL ?t))
                   < firstIndexOf b (map trim (split_at NL ?t))) (dedupLines ?t)"
    using keepUnseen_first_seen_order [of "{}" "[]" "map trim (split_at NL ?t)"]
    by (simp add: dedupLines_def)
  from sent lines empty dist elems order show ?thesis
    by (simp add: deduplicateTasks_def)
qed

text \<open>
  The first scenario: the prompt holds the duration line and the two-line task block.
\<close>

theorem suggestSprintPlan_deduplicates_witness:
  "fst (suggestSprintPlan id silentModel scenarioInput) =
     [sprintPromptHead @ js ''- Sprint Duration: 2 weeks'' @ [NL] @ sprintPromptTaskList @
      (js ''Fix bug'' @ dash @ js ''High'' @ dash @ js ''3'' @ [NL] @
       js ''Write docs'' @ dash @ js ''Low'' @ dash @ js ''1'') @
      sprintPromptTail] \<and>
   dedupLines (tasksText scenarioInput) =
     [js ''Fix bug'' @ dash @ js ''High'' @ dash @ js ''3'',
      js ''Write docs'' @ dash @ js ''Low'' @ dash @ js ''1'']"
  using suggestSprintPlan_deduplicates [of id silentModel scenarioInput]
  by (simp add: scenarioInput_def str_eval dash_def section_eval)

subsection \<open>C2: a plan without its heading is a format error\<close>

text \<open>
  C2. For every model response to the sprint-plan flow whose \<open>sprintPlan\<close> field does
  not contain the heading \<^verbatim>\<open>## Sprint Plan\<close>, the flow fails with the format error (an
  error whose message starts with \<^verbatim>\<open>AI_FORMAT_ERROR:\<close>) and returns no output record;
  so does \<^verbatim>\<open>suggestSprintPlan\<close>. The failure is distinct: its message is neither the
  empty-response message nor a service-unavailable message.
\<close>

theorem sprintPlannerFlow_missing_heading:
  "model (sprintPlannerPrompt esc input) = Output (Some output) \<Longrightarrow>
   \<not> includesStr (sprintPlan output) (js ''## Sprint Plan'') \<Longrightarrow>
   snd (sprintPlannerFlow esc model input) = Inl (Error AI_FORMAT_ERROR) \<and>
   snd (suggestSprintPlan esc (replyingModel output) input) = Inl (Error AI_FORMAT_ERROR) \<and>
   startsWith AI_FORMAT_ERROR (js ''AI_FORMAT_ERROR:'') \<and>
   AI_FORMAT_ERROR \<noteq> AI_EMPTY_RESPONSE \<and>
   (\<forall>detail. AI_FORMAT_ERROR \<noteq> serviceUnavailableMessage detail)"
  by (simp add: flow_eval replyingModel_def)
     (simp add: AI_FORMAT_ERROR_def AI_EMPTY_RESPONSE_def serviceUnavailableMessage_def js_def)

theorem sprintPlannerFlow_missing_heading_witness:
  "\<not> includesStr (sprintPlan headlessPlan) (js ''## Sprint Plan'') \<and>
   snd (sprintPlannerFlow id (replyingModel headlessPlan) scenarioInput) =
     Inl (Error AI_FORMAT_ERROR) \<and>
   snd (suggestSprintPlan id (replyingModel headlessPlan) scenarioInput) =
     Inl (Error AI_FORMAT_ERROR)"
  using sprintPlannerFlow_missing_heading
    [of "replyingModel headlessPlan" id scenarioInput headlessPlan]
  by (simp add: replyingModel_def headlessPlan_def js_def)

subsection \<open>C3: empty responses and service failures\<close>




subsection \<open>C4: optional sections of the prompts\<close>

text \<open>
  What holds of C4, for every input record of each of the four flows. The rendered
  prompt is the fixed text with one section per optional field. The section of a field
  is left out entirely when the field is undefined or the empty string. When the field is
  a non-empty string, or the team capacity a number other than 0, the prompt contains the
  field's section with the value in it: inserted as it is in the scope-creep,
  risk-analysis and retrospective prompts, and as the template engine renders a
  double-brace expression (\<open>esc\<close>) in the sprint-plan prompt.
\<close>

theorem optional_sections:
  "sprintPlannerPrompt esc input =
     sprintPromptHead @ sprintDurationSection esc input @ teamSizeSection esc input @
     teamCapacitySection esc input @ sprintGoalSection esc input @
     sprintPromptTaskList @ tasksText input @ sprintPromptTail \<and>
   scopeCreepDetectorPrompt cinput =
     creepPromptHead @ currentTasksText cinput @ [NL, NL] @
     originalTasksSection cinput @ [NL] @ sprintGoalSectionSC cinput @ creepPromptTail \<and>
   sprintRiskAnalysisPrompt rinput =
     riskPromptHead @ tasksJsonRA rinput @ [NL, NL] @
     teamContextSection rinput @ riskPromptTail \<and>
   sprintRetrospectivePrompt sinput =
     retroPromptHead @ tasksJsonSR sinput @ [NL, NL] @
     sprintGoalSectionSR sinput @ [NL] @ teamSentimentSection sinput @ [NL] @
     additionalNotesSection sinput @ retroPromptTail \<and>
   (sprintDuration input = None \<or> sprintDuration input = Some [] \<longrightarrow> sprintDurationSection esc input = []) \<and>
   (teamSize input = None \<or> teamSize input = Some [] \<longrightarrow> teamSizeSection esc input = []) \<and>
   (teamStoryPointCapacity input = None \<longrightarrow> teamCapacitySection esc input = []) \<and>
   (sprintGoal input = None \<or> sprintGoal input = Some [] \<longrightarrow> sprintGoalSection esc input = []) \<and>
   (originalTasksText cinput = None \<or> originalTasksText cinput = Some [] \<longrightarrow> originalTasksSection cinput = []) \<and>
   (sprintGoalSC cinput = None \<or> sprintGoalSC cinput = Some [] \<longrightarrow> sprintGoalSectionSC cinput = []) \<and>
   (teamContext rinput = None \<or> teamContext rinput = Some [] \<longrightarrow> teamContextSection rinput = []) \<and>
   (sprintGoalSR sinput = None \<or> sprintGoalSR sinput = Some [] \<longrightarrow> sprintGoalSectionSR sinput = []) \<and>
   (teamSentiment sinput = None \<or> teamSentiment sinput = Some [] \<longrightarrow> teamSentimentSection sinput = []) \<and>
   (additionalNotes sinput = None \<or> additionalNotes sinput = Some [] \<longrightarrow> additionalNotesSection sinput = []) \<and>
   (sprintDuration input = Some duration \<and> duration \<noteq> [] \<longrightarrow>
      sprintDurationSection esc input =
        js ''- Sprint Duration: '' @ esc duration @ [NL] \<and>
      includesStr (sprintPlannerPrompt esc input)
        (js ''- Sprint Duration: '' @ esc duration @ [NL])) \<and>
   (teamSize input = Some team \<and> team \<noteq> [] \<longrightarrow>
      teamSizeSection esc input =
        js ''- Team Size: '' @ esc team @ [NL] \<and>
      includesStr (sprintPlannerPrompt esc input)
        (js ''- Team Size: '' @ esc team @ [NL])) \<and>
   (teamStoryPointCapacity input = Some (NonZero capacity) \<longrightarrow>
      teamCapacitySection esc input =
        js ''- Team Capacity: '' @ esc capacity @ js '' story points per sprint'' @ [NL] \<and>
      includesStr (sprintPlannerPrompt esc input)
        (js ''- Team Capacity: '' @ esc capacity @ js '' story points per sprint'' @ [NL])) \<and>
   (sprintGoal input = Some goal \<and> goal \<noteq> [] \<longrightarrow>
      sprintGoalSection esc input =
        js ''- Sprint Goal: '' @ esc goal @ [NL] \<and>
      includesStr (sprintPlannerPrompt esc input)
        (js ''- Sprint Goal: '' @ esc goal @ [NL])) \<and>
   (originalTasksText cinput = Some original \<and> original \<noteq> [] \<longrightarrow>
      originalTasksSection cinput =
        js ''Original Sprint Tasks:'' @ [NL] @ original @ [NL] \<and>
      includesStr (scopeCreepDetectorPrompt cinput)
        (js ''Original Sprint Tasks:'' @ [NL] @ original @ [NL])) \<and>
   (sprintGoalSC cinput = Some cgoal \<and> cgoal \<noteq> [] \<longrightarrow>
      sprintGoalSectionSC cinput =
        js ''Sprint Goal:'' @ [NL] @ cgoal @ [NL] \<and>
      includesStr (scopeCreepDetectorPrompt cinput)
        (js ''Sprint Goal:'' @ [NL] @ cgoal @ [NL])) \<and>
   (teamContext rinput = Some teamInfo \<and> teamInfo \<noteq> [] \<longrightarrow>
      teamContextSection rinput =
        js ''Team Context:'' @ [NL] @ teamInfo @ [NL] \<and>
      includesStr (sprintRiskAnalysisPrompt rinput)
        (js ''Team Context:'' @ [NL] @ teamInfo @ [NL])) \<and>
   (sprintGoalSR sinput = Some sgoal \<and> sgoal \<noteq> [] \<longrightarrow>
      sprintGoalSectionSR sinput =
        js ''Sprint Goal:'' @ [NL] @ sgoal @ [NL] \<and>
      includesStr (sprintRetrospectivePrompt sinput)
        (js ''Sprint Goal:'' @ [NL] @ sgoal @ [NL])) \<and>
   (teamSentiment sinput = Some sentiment \<and> sentiment \<noteq> [] \<longrightarrow>
      teamSentimentSection sinput =
        js ''Team Sentiment:'' @ [NL] @ sentiment @ [NL] \<and>
      includesStr (sprintRetrospectivePrompt sinput)
        (js ''Team Sentiment:'' @ [NL] @ sentiment @ [NL])) \<and>
   (additionalNotes sinput = Some remarks \<and> remarks \<noteq> [] \<longrightarrow>
      additionalNotesSection sinput =
        js ''Additional Notes:'' @ [NL] @ remarks @ [NL] \<and>
      includesStr (sprintRetrospectivePrompt sinput)
        (js ''Additional Notes:'' @ [NL] @ remarks @ [NL]))"
proof -
  note inc = sprintPrompt_contains [of esc input]
  note cinc = creepPrompt_contains [of cinput]
  note rinc = riskPrompt_contains [of rinput]
  note sinc = retroPrompt_contains [of sinput]
  have p0: "sprintPlannerPrompt esc input =
     sprintPromptHead @ sprintDurationSection esc input @ teamSizeSection esc input @
     teamCapacitySection esc input @ sprintGoalSection esc input @
     sprintPromptTaskList @ tasksText input @ sprintPromptTail"
    by (simp add: sprintPlannerPrompt_def)
  have p1: "scopeCreepDetectorPrompt cinput =
     creepPromptHead @ currentTasksText cinput @ [NL, NL] @
     originalTasksSection cinput @ [NL] @ sprintGoalSectionSC cinput @ creepPromptTail"
    by (simp add: scopeCreepDetectorPrompt_def)
  have p2: "sprintRiskAnalysisPrompt rinput =
     riskPromptHead @ tasksJsonRA rinput @ [NL, NL] @
     teamContextSection rinput @ riskPromptTail"
    by (simp add: sprintRiskAnalysisPrompt_def)
  have p3: "sprintRetrospectivePrompt sinput =
     retroPromptHead @ tasksJsonSR sinput @ [NL, NL] @
     sprintGoalSectionSR sinput @ [NL] @ teamSentimentSection sinput @ [NL] @
     additionalNotesSection sinput @ retroPromptTail"
    by (simp add: sprintRetrospectivePrompt_def)
  have off0: "sprintDuration input = None \<or> sprintDuration input = Some [] \<longrightarrow> sprintDurationSection esc input = []"
    by (simp add: sprintDurationSection_def ifString_absent)
  have off1: "teamSize input = None \<or> teamSize input = Some [] \<longrightarrow> teamSizeSection esc input = []"
    by (simp add: teamSizeSection_def ifString_absent)
  have off2: "teamStoryPointCapacity input = None \<longrightarrow> teamCapacitySection esc input = []"
    by (simp add: teamCapacitySection_def ifNumber_def)
  have off3: "sprintGoal input = None \<or> sprintGoal input = Some [] \<longrightarrow> sprintGoalSection esc input = []"
    by (simp add: sprintGoalSection_def ifString_absent)
  have off4: "originalTasksText cinput = None \<or> originalTasksText cinput = Some [] \<longrightarrow> originalTasksSection cinput = []"
    by (simp add: originalTasksSection_def ifString_absent)
  have off5: "sprintGoalSC cinput = None \<or> sprintGoalSC cinput = Some [] \<longrightarrow> sprintGoalSectionSC cinput = []"
    by (simp add: sprintGoalSectionSC_def ifString_absent)
  have off6: "teamContext rinput = None \<or> teamContext rinput = Some [] \<longrightarrow> teamContextSection rinput = []"
    by (simp add: teamContextSection_def ifString_absent)
  have off7: "sprintGoalSR sinput = None \<or> sprintGoalSR sinput = Some [] \<longrightarrow> sprintGoalSectionSR sinput = []"
    by (simp add: sprintGoalSectionSR_def ifString_absent)
  have off8: "teamSentiment sinput = None \<or> teamSentiment sinput = Some [] \<longrightarrow> teamSentimentSection sinput = []"
    by (simp add: teamSentimentSection_def ifString_absent)
  have off9: "additionalNotes sinput = None \<or> additionalNotes sinput = Some [] \<longrightarrow> additionalNotesSection sinput = []"
    by (simp add: additionalNotesSection_def ifString_absent)
  have on0: "sprintDuration input = Some duration \<and> duration \<noteq> [] \<longrightarrow>
      sprintDurationSection esc input =
        js ''- Sprint Duration: '' @ esc duration @ [NL] \<and>
      includesStr (sprintPlannerPrompt esc input)
        (js ''- Sprint Duration: '' @ esc duration @ [NL])"
  proof
    assume "sprintDuration input = Some duration \<and> duration \<noteq> []"
    then have "sprintDurationSection esc input =
        js ''- Sprint Duration: '' @ esc duration @ [NL]"
      by (simp add: sprintDurationSection_def ifString_present)
    with inc show "sprintDurationSection esc input =
        js ''- Sprint Duration: '' @ esc duration @ [NL] \<and>
      includesStr (sprintPlannerPrompt esc input)
        (js ''- Sprint Duration: '' @ esc duration @ [NL])"
      by simp
  qed
  have on1: "teamSize input = Some team \<and> team \<noteq> [] \<longrightarrow>
      teamSizeSection esc input =
        js ''- Team Size: '' @ esc team @ [NL] \<and>
      includesStr (sprintPlannerPrompt esc input)
        (js ''- Team Size: '' @ esc team @ [NL])"
  proof
    assume "teamSize input = Some team \<and> team \<noteq> []"
    then have "teamSizeSection esc input =
        js ''- Team Size: '' @ esc team @ [NL]"
      by (simp add: teamSizeSection_def ifString_present)
    with inc show "teamSizeSection esc input =
        js ''- Team Size: '' @ esc team @ [NL] \<and>
      includesStr (sprintPlannerPrompt esc input)
        (js ''- Team Size: '' @ esc team @ [NL])"
      by simp
  qed
  have on2: "teamStoryPointCapacity input = Some (NonZero capacity) \<longrightarrow>
      teamCapacitySection esc input =
        js ''- Team Capacity: '' @ esc capacity @ js '' story points per sprint'' @ [NL] \<and>
      includesStr (sprintPlannerPrompt esc input)
        (js ''- Team Capacity: '' @ esc capacity @ js '' story points per sprint'' @ [NL])"
  proof
    assume "teamStoryPointCapacity input = Some (NonZero capacity)"
    then have "teamCapacitySection esc input =
        js ''- Team Capacity: '' @ esc capacity @ js '' story points per sprint'' @ [NL]"
      by (simp add: teamCapacitySection_def ifNumber_def)
    with inc show "teamCapacitySection esc input =
        js ''- Team Capacity: '' @ esc capacity @ js '' story points per sprint'' @ [NL] \<and>
      includesStr (sprintPlannerPrompt esc input)
        (js ''- Team Capacity: '' @ esc capacity @ js '' story points per sprint'' @ [NL])"
      by simp
  qed
  have on3: "sprintGoal input = Some goal \<and> goal \<noteq> [] \<longrightarrow>
      sprintGoalSection esc input =
        js ''- Sprint Goal: '' @ esc goal @ [NL] \<and>
      includesStr (sprintPlannerPrompt esc input)
        (js ''- Sprint Goal: '' @ esc goal @ [NL])"
  proof
    assume "sprintGoal input = Some goal \<and> goal \<noteq> []"
    then have "sprintGoalSection esc input =
        js ''- Sprint Goal: '' @ esc goal @ [NL]"
      by (simp add: sprintGoalSection_def ifString_present)
    with inc show "sprintGoalSection esc input =
        js ''- Sprint Goal: '' @ esc goal @ [NL] \<and>
      includesStr (sprintPlannerPrompt esc input)
        (js ''- Sprint Goal: '' @ esc goal @ [NL])"
      by simp
  qed
  have on4: "originalTasksText cinput = Some original \<and> original \<noteq> [] \<longrightarrow>
      originalTasksSection cinput =
        js ''Original Sprint Tasks:'' @ [NL] @ original @ [NL] \<and>
      includesStr (scopeCreepDetectorPrompt cinput)
        (js ''Original Sprint Tasks:'' @ [NL] @ original @ [NL])"
  proof
    assume "originalTasksText cinput = Some original \<and> original \<noteq> []"
    then have "originalTasksSection cinput =
        js ''Original Sprint Tasks:'' @ [NL] @ original @ [NL]"
      by (simp add: originalTasksSection_def ifString_present)
    with cinc show "originalTasksSection cinput =
        js ''Original Sprint Tasks:'' @ [NL] @ original @ [NL] \<and>
      includesStr (scopeCreepDetectorPrompt cinput)
        (js ''Original Sprint Tasks:'' @ [NL] @ original @ [NL])"
      by simp
  qed
  have on5: "sprintGoalSC cinput = Some cgoal \<and> cgoal \<noteq> [] \<longrightarrow>
      sprintGoalSectionSC cinput =
        js ''Sprint Goal:'' @ [NL] @ cgoal @ [NL] \<and>
      includesStr (scopeCreepDetectorPrompt cinput)
        (js ''Sprint Goal:'' @ [NL] @ cgoal @ [NL])"
  proof
    assume "sprintGoalSC cinput = Some cgoal \<and> cgoal \<noteq> []"
    then have "sprintGoalSectionSC cinput =
        js ''Sprint Goal:'' @ [NL] @ cgoal @ [NL]"
      by (simp add: sprintGoalSectionSC_def ifString_present)
    with cinc show "sprintGoalSectionSC cinput =
        js ''Sprint Goal:'' @ [NL] @ cgoal @ [NL] \<and>
      includesStr (scopeCreepDetectorPrompt cinput)
        (js ''Sprint Goal:'' @ [NL] @ cgoal @ [NL])"
      by simp
  qed
  have on6: "teamContext rinput = Some teamInfo \<and> teamInfo \<noteq> [] \<longrightarrow>
      teamContextSection rinput =
        js ''Team Context:'' @ [NL] @ teamInfo @ [NL] \<and>
      includesStr (sprintRiskAnalysisPrompt rinput)
        (js ''Team Context:'' @ [NL] @ teamInfo @ [NL])"
  proof
    assume "teamContext rinput = Some teamInfo \<and> teamInfo \<noteq> []"
    then have "teamContextSection rinput =
        js ''Team Context:'' @ [NL] @ teamInfo @ [NL]"
      by (simp add: teamContextSection_def ifString_present)
    with rinc show "teamContextSection rinput =
        js ''Team Context:'' @ [NL] @ teamInfo @ [NL] \<and>
      includesStr (sprintRiskAnalysisPrompt rinput)
        (js ''Team Context:'' @ [NL] @ teamInfo @ [NL])"
      by simp
  qed
  have on7: "sprintGoalSR sinput = Some sgoal \<and> sgoal \<noteq> [] \<longrightarrow>
      sprintGoalSectionSR sinput =
        js ''Sprint Goal:'' @ [NL] @ sgoal @ [NL] \<and>
      includesStr (sprintRetrospectivePrompt sinput)
        (js ''Sprint Goal:'' @ [NL] @ sgoal @ [NL])"
  proof
    assume "sprintGoalSR sinput = Some sgoal \<and> sgoal \<noteq> []"
    then have "sprintGoalSectionSR sinput =
        js ''Sprint Goal:'' @ [NL] @ sgoal @ [NL]"
      by (simp add: sprintGoalSectionSR_def ifString_present)
    with sinc show "sprintGoalSectionSR sinput =
        js ''Sprint Goal:'' @ [NL] @ sgoal @ [NL] \<and>
      includesStr (sprintRetrospectivePrompt sinput)
        (js ''Sprint Goal:'' @ [NL] @ sgoal @ [NL])"
      by simp
  qed
  have on8: "teamSentiment sinput = Some sentiment \<and> sentiment \<noteq> [] \<longrightarrow>
      teamSentimentSection sinput =
        js ''Team Sentiment:'' @ [NL] @ sentiment @ [NL] \<and>
      includesStr (sprintRetrospectivePrompt sinput)
        (js ''Team Sentiment:'' @ [NL] @ sentiment @ [NL])"
  proof
    assume "teamSentiment sinput = Some sentiment \<and> sentiment \<noteq> []"
    then have "teamSentimentSection sinput =
        js ''Team Sentiment:'' @ [NL] @ sentiment @ [NL]"
      by (simp add: teamSentimentSection_def ifString_present)
    with sinc show "teamSentimentSection sinput =
        js ''Team Sentiment:'' @ [NL] @ sentiment @ [NL] \<and>
      includesStr (sprintRetrospectivePrompt sinput)
        (js ''Team Sentiment:'' @ [NL] @ sentiment @ [NL])"
      by simp
  qed
  have on9: "additionalNotes sinput = Some remarks \<and> remarks \<noteq> [] \<longrightarrow>
      additionalNotesSection sinput =
        js ''Additional Notes:'' @ [NL] @ remarks @ [NL] \<and>
      includesStr (sprintRetrospectivePrompt sinput)
        (js ''Additional Notes:'' @ [NL] @ remarks @ [NL])"
  proof
    assume "additionalNotes sinput = Some remarks \<and> remarks \<noteq> []"
    then have "additionalNotesSection sinput =
        js ''Additional Notes:'' @ [NL] @ remarks @ [NL]"
      by (simp add: additionalNotesSection_def ifString_present)
    with sinc show "additionalNotesSection sinput =
        js ''Additional Notes:'' @ [NL] @ remarks @ [NL] \<and>
      includesStr (sprintRetrospectivePrompt sinput)
        (js ''Additional Notes:'' @ [NL] @ remarks @ [NL])"
      by simp
  qed
  show ?thesis
    by (intro conjI) (fact p0 p1 p2 p3 off0 off1 off2 off3 off4 off5 off6 off7 off8 off9 on0 on1 on2 on3 on4 on5 on6 on7 on8 on9)+
qed

theorem optional_sections_witness:
  "sprintPlannerPrompt id fullInput =
     sprintPromptHead @ js ''- Sprint Duration: 2 weeks'' @ [NL] @
     js ''- Team Size: 3 developers'' @ [NL] @
     js ''- Team Capacity: 20 story points per sprint'' @ [NL] @
     js ''- Sprint Goal: Ship login'' @ [NL] @
     sprintPromptTaskList @ js ''Fix bug'' @ sprintPromptTail \<and>
   includesStr (sprintPlannerPrompt id fullInput)
     (js ''- Team Capacity: 20 story points per sprint'' @ [NL]) \<and>
   scopeCreepDetectorPrompt creepScenarioInput =
     creepPromptHead @ js ''Login page\<newline>Signup page'' @ [NL, NL] @
     js ''Original Sprint Tasks:'' @ [NL] @ js ''Login page'' @ [NL] @ [NL] @
     js ''Sprint Goal:'' @ [NL] @ js ''Ship login'' @ [NL] @ creepPromptTail \<and>
   sprintRiskAnalysisPrompt riskInput =
     riskPromptHead @ scenarioTasksJson @ [NL, NL] @
     js ''Team Context:'' @ [NL] @ js ''Team of 5'' @ [NL] @ riskPromptTail \<and>
   sprintRetrospectivePrompt retroInput =
     retroPromptHead @ scenarioTasksJson @ [NL, NL] @
     js ''Sprint Goal:'' @ [NL] @ js ''Ship login'' @ [NL] @ [NL] @
     js ''Team Sentiment:'' @ [NL] @ js ''Energized'' @ [NL] @ [NL] @
     js ''Additional Notes:'' @ [NL] @ js ''Server outage'' @ [NL] @ retroPromptTail \<and>
   sprintPlannerPrompt id emptyTasksInput =
     sprintPromptHead @ sprintPromptTaskList @ sprintPromptTail \<and>
   scopeCreepDetectorPrompt emptyCurrentInput =
     creepPromptHead @ [NL, NL] @ js ''Original Sprint Tasks:'' @ [NL] @ js ''Login page'' @ [NL] @
     [NL] @ creepPromptTail \<and>
   sprintRiskAnalysisPrompt bareRiskInput =
     riskPromptHead @ scenarioTasksJson @ [NL, NL] @ riskPromptTail \<and>
   sprintRetrospectivePrompt emptyRetroInput =
     retroPromptHead @ [NL, NL] @ [NL] @ [NL] @ retroPromptTail"
  using
    optional_sections [where esc = id and input = fullInput and cinput = creepScenarioInput
      and rinput = riskInput and sinput = retroInput
      and duration = "js ''2 weeks''" and team = "js ''3 developers''" and capacity = "js ''20''"
      and goal = "js ''Ship login''" and original = "js ''Login page''"
      and cgoal = "js ''Ship login''" and teamInfo = "js ''Team of 5''"
      and sgoal = "js ''Ship login''" and sentiment = "js ''Energized''"
      and remarks = "js ''Server outage''"]
    optional_sections [where esc = id and input = emptyTasksInput and cinput = emptyCurrentInput
      and rinput = bareRiskInput and sinput = emptyRetroInput]
  by (simp add: fullInput_def creepScenarioInput_def emptyTasksInput_def emptyCurrentInput_def
      riskInput_def bareRiskInput_def retroInput_def emptyRetroInput_def section_eval js_def
      NL_def)

text \<open>
  C4, where the code departs from it. A team capacity of 0 is a value of the input
  record, and one the page's form accepts; the claim has it interpolated in its section.
  The rendered prompt has no capacity section: it is the prompt of the same input without
  the field.
\<close>

theorem zero_capacity_section_omitted:
  "teamStoryPointCapacity zeroCapacityInput = Some Zero \<and>
   teamCapacitySection id zeroCapacityInput = [] \<and>
   sprintPlannerPrompt id zeroCapacityInput =
     sprintPlannerPrompt id (zeroCapacityInput\<lparr>teamStoryPointCapacity := None\<rparr>) \<and>
   sprintPlannerPrompt id zeroCapacityInput =
     sprintPromptHead @ js ''- Sprint Duration: 2 weeks'' @ [NL] @
     sprintPromptTaskList @ js ''Fix bug'' @ sprintPromptTail"
  by (simp add: zeroCapacityInput_def section_eval js_def)

subsection \<open>C5: an empty task list\<close>

text \<open>
  C5, as the code has it. The scope-creep flow rejects an input whose
  \<open>currentTasksText\<close> is empty with a validation error that names that field, and
  sends nothing upstream. The sprint-plan, risk-analysis and retrospective flows have no
  such constraint on their task field: an input with an empty task list passes, its
  prompt is sent upstream, and a reply with an output record (for the sprint plan: one
  with the plan heading) is returned as the result.
\<close>

theorem empty_task_list_validation:
  "(currentTasksText cinput = [] \<longrightarrow>
      detectScopeCreep cmodel cinput = ([], Inl (InvalidInput (js ''currentTasksText'')))) \<and>
   (tasksText input = [] \<longrightarrow>
      fst (suggestSprintPlan esc model input) = [sprintPlannerPrompt esc input] \<and>
      (\<forall>output. model (sprintPlannerPrompt esc input) = Output (Some output) \<and>
         includesStr (sprintPlan output) (js ''## Sprint Plan'') \<longrightarrow>
         snd (suggestSprintPlan esc model input) = Inr output)) \<and>
   (tasksJsonRA rinput = [] \<longrightarrow>
      fst (analyzeSprintRisks rmodel rinput) = [sprintRiskAnalysisPrompt rinput] \<and>
      (\<forall>output. rmodel (sprintRiskAnalysisPrompt rinput) = Output (Some output) \<longrightarrow>
         snd (analyzeSprintRisks rmodel rinput) = Inr output)) \<and>
   (tasksJsonSR sinput = [] \<longrightarrow>
      fst (generateSprintRetrospective smodel sinput) = [sprintRetrospectivePrompt sinput] \<and>
      (\<forall>output. smodel (sprintRetrospectivePrompt sinput) = Output (Some output) \<longrightarrow>
         snd (generateSprintRetrospective smodel sinput) = Inr output))"
proof -
  have "tasksText input = [] \<Longrightarrow> input\<lparr>tasksText := deduplicateTasks (tasksText input)\<rparr> = input"
    by (cases input) (simp add: str_eval)
  then have sprint: "tasksText input = [] \<longrightarrow>
      fst (suggestSprintPlan esc model input) = [sprintPlannerPrompt esc input] \<and>
      (\<forall>output. model (sprintPlannerPrompt esc input) = Output (Some output) \<and>
         includesStr (sprintPlan output) (js ''## Sprint Plan'') \<longrightarrow>
         snd (suggestSprintPlan esc model input) = Inr output)"
    by (auto simp: flow_eval)
  have creep: "currentTasksText cinput = [] \<longrightarrow>
      detectScopeCreep cmodel cinput = ([], Inl (InvalidInput (js ''currentTasksText'')))"
    by (simp add: creep_eval)
  have risk: "tasksJsonRA rinput = [] \<longrightarrow>
      fst (analyzeSprintRisks rmodel rinput) = [sprintRiskAnalysisPrompt rinput] \<and>
      (\<forall>output. rmodel (sprintRiskAnalysisPrompt rinput) = Output (Some output) \<longrightarrow>
         snd (analyzeSprintRisks rmodel rinput) = Inr output)"
    by (simp add: analyzeSprintRisks_result)
  have retro: "tasksJsonSR sinput = [] \<longrightarrow>
      fst (generateSprintRetrospective smodel sinput) = [sprintRetrospectivePrompt sinput] \<and>
      (\<forall>output. smodel (sprintRetrospectivePrompt sinput) = Output (Some output) \<longrightarrow>
         snd (generateSprintRetrospective smodel sinput) = Inr output)"
    by (simp add: generateSprintRetrospective_result)
  from creep sprint risk retro show ?thesis
    by (intro conjI)
qed

theorem empty_task_list_validation_witness:
  "detectScopeCreep (replyingModel creepNoneReply) emptyCurrentInput =
     ([], Inl (InvalidInput (js ''currentTasksText''))) \<and>
   fst (suggestSprintPlan id silentModel emptyTasksInput) =
     [sprintPlannerPrompt id emptyTasksInput] \<and>
   analyzeSprintRisks (replyingModel riskReply) emptyRiskInput =
     ([sprintRiskAnalysisPrompt emptyRiskInput], Inr riskReply) \<and>
   generateSprintRetrospective (replyingModel retroReply) emptyRetroInput =
     ([sprintRetrospectivePrompt emptyRetroInput], Inr retroReply)"
  using empty_task_list_validation
    [where cinput = emptyCurrentInput and cmodel = "replyingModel creepNoneReply"
       and input = emptyTasksInput and esc = id and model = silentModel
       and rinput = emptyRiskInput and rmodel = "replyingModel riskReply"
       and sinput = emptyRetroInput and smodel = "replyingModel retroReply"]
  by (simp add: emptyCurrentInput_def emptyTasksInput_def emptyRiskInput_def emptyRetroInput_def
      replyingModel_def prod_eq_iff)

text \<open>
  C5 as stated fails for the sprint-plan flow: with an empty task list the flow raises
  no validation error, sends its prompt upstream and returns the model's plan.
\<close>

theorem empty_task_list_counterexample:
  "tasksText emptyTasksInput = [] \<and>
   suggestSprintPlan id (replyingModel scenarioPlan) emptyTasksInput =
     ([sprintPlannerPrompt id emptyTasksInput], Inr scenarioPlan)"
  by (simp add: emptyTasksInput_def flow_eval replyingModel_def str_eval)
     (simp add: scenarioPlan_def js_def)

subsection \<open>C6: the creep level is the model's\<close>

text \<open>
  C6, as the code has it. For every scope-creep flow call with a non-empty list of
  current tasks to which the model replies with an output record, the flow returns that
  record unchanged; the returned \<open>creepLevel\<close> is the one the model gave, whatever the
  task lists are. The comparison of the two lists is left to the model, which the prompt
  instructs.
\<close>

theorem creepLevel_is_the_models:
  "currentTasksText input \<noteq> [] \<Longrightarrow>
   model (scopeCreepDetectorPrompt input) = Output (Some output) \<Longrightarrow>
   detectScopeCreep model input = ([scopeCreepDetectorPrompt input], Inr output)"
  by (simp add: detectScopeCreep_result)

theorem creepLevel_is_the_models_witness:
  "snd (detectScopeCreep (replyingModel creepLowReply) creepScenarioInput) = Inr creepLowReply \<and>
   creepLevel creepLowReply = CreepLow"
  using creepLevel_is_the_models
    [of creepScenarioInput "replyingModel creepLowReply" creepLowReply]
  by (simp add: creepScenarioInput_def replyingModel_def creepLowReply_def js_def)

text \<open>
  C6 as stated fails: the current tasks hold every line of the original tasks and one
  new line, the model answers \<^verbatim>\<open>None\<close>, and the flow returns \<^verbatim>\<open>None\<close>.
\<close>

theorem creepLevel_None_counterexample:
  "addsNewLines creepScenarioInput \<and>
   snd (detectScopeCreep (replyingModel creepNoneReply) creepScenarioInput) = Inr creepNoneReply \<and>
   creepLevel creepNoneReply = CreepNone"
  by (simp add: addsNewLines_def creepScenarioInput_def creep_eval replyingModel_def
      creepNoneReply_def js_def NL_def)

subsection \<open>C7: loading the tasks of the active project\<close>

text \<open>
  C7, as the code has it. When a user is logged in, an active project is stored for that
  user and the task action returns the project's tasks, the page's action selects exactly
  the tasks whose status is \<^verbatim>\<open>To Do\<close>, turns each into the line
  \<^verbatim>\<open><title> \<dots> <priority> \<dots> <effort>\<close> (the parts separated by an en dash between
  spaces), and puts these lines, joined by line feeds, into the form's task-list field.
  In a line, \<^verbatim>\<open>Untitled Task\<close> stands for an empty title, \<^verbatim>\<open>N/A\<close> for a missing
  priority and \<^verbatim>\<open>0\<close> for a missing effort.
\<close>

theorem handleFetchProjectTasks_fills_form:
  "user = Some u \<Longrightarrow> user_id u \<noteq> [] \<Longrightarrow>
   localStorage (getUserScopedKey (js ''taskMasterActiveProjectId'') (Some (user_id u)))
     = Some activeProjectId \<Longrightarrow>
   activeProjectId \<noteq> [] \<Longrightarrow>
   getTasks activeProjectId (user_id u) = Inr projectTasks \<Longrightarrow>
   formTasksText (handleFetchProjectTasks getTasks localStorage user page) =
     join_with [NL] (map taskLine (filter (\<lambda>task. status task = js ''To Do'') projectTasks)) \<and>
   (\<forall>task. taskLine task =
      (if title task = [] then js ''Untitled Task'' else title task) @ dash @
      (case priority task of None \<Rightarrow> js ''N/A'' | Some p \<Rightarrow> priorityText p) @ dash @
      (case effort task of None \<Rightarrow> js ''0'' | Some n \<Rightarrow> numberText n))"
proof -
  assume a: "user = Some u" "user_id u \<noteq> []"
    "localStorage (getUserScopedKey (js ''taskMasterActiveProjectId'') (Some (user_id u)))
       = Some activeProjectId"
    "activeProjectId \<noteq> []" "getTasks activeProjectId (user_id u) = Inr projectTasks"
  have line: "taskLine task =
      (if title task = [] then js ''Untitled Task'' else title task) @ dash @
      (case priority task of None \<Rightarrow> js ''N/A'' | Some p \<Rightarrow> priorityText p) @ dash @
      (case effort task of None \<Rightarrow> js ''0'' | Some n \<Rightarrow> numberText n)" for task
    by (simp add: taskLine_def Let_def split: option.split jsnumber.split)
  have form: "formTasksText (handleFetchProjectTasks getTasks localStorage user page) =
     join_with [NL] (map taskLine (filter (\<lambda>task. status task = js ''To Do'') projectTasks))"
  proof (cases "filter (\<lambda>task. status task = js ''To Do'') projectTasks = []")
    case True
    with a show ?thesis
      by (simp add: handleFetchProjectTasks_def toast_def Let_def)
  next
    case False
    then have "projectTasks \<noteq> []" by auto
    with a False show ?thesis
      by (simp add: handleFetchProjectTasks_def toast_def Let_def)
  qed
  from line form show ?thesis by blast
qed

theorem handleFetchProjectTasks_fills_form_witness:
  "formTasksText
     (handleFetchProjectTasks
        (\<lambda>p u. Inr (fst (getTasksByProjectId (Some exampleDb) p u)))
        exampleStorage (Some exampleUser) stalePage) =
     js ''Fix bug'' @ dash @ js ''High'' @ dash @ js ''3'' \<and>
   formTasksText
     (handleFetchProjectTasks (\<lambda>p u. Inr [doneTask, fixBugTask, doneTask, fixBugTask])
        exampleStorage (Some exampleUser) stalePage) =
     js ''Fix bug'' @ dash @ js ''High'' @ dash @ js ''3'' @ [NL] @
     js ''Fix bug'' @ dash @ js ''High'' @ dash @ js ''3''"
  using
    handleFetchProjectTasks_fills_form
      [of "Some exampleUser" exampleUser exampleStorage "js ''p1''"
          "\<lambda>p u. Inr (fst (getTasksByProjectId (Some exampleDb) p u))"
          "fst (getTasksByProjectId (Some exampleDb) (js ''p1'') (js ''ann''))" stalePage]
    handleFetchProjectTasks_fills_form
      [of "Some exampleUser" exampleUser exampleStorage "js ''p1''"
          "\<lambda>p u. Inr [doneTask, fixBugTask, doneTask, fixBugTask]"
          "[doneTask, fixBugTask, doneTask, fixBugTask]" stalePage]
  by (simp add: exampleUser_def exampleStorage_def getUserScopedKey_def fixBugTask_def
      doneTask_def getTasksByProjectId_def ownsProject_def exampleDb_def
      tasksByCreatedAtDesc_def task_eval)

text \<open>
  C7 as stated fails for a task with an empty title: its line starts with
  \<^verbatim>\<open>Untitled Task\<close>, not with the title.
\<close>

theorem untitled_task_counterexample:
  "title untitledTask = [] \<and> status untitledTask = js ''To Do'' \<and>
   formTasksText
     (handleFetchProjectTasks (\<lambda>p u. Inr [untitledTask]) exampleStorage (Some exampleUser)
        stalePage) =
     js ''Untitled Task'' @ dash @ js ''N/A'' @ dash @ js ''0'' \<and>
   js ''Untitled Task'' @ dash @ js ''N/A'' @ dash @ js ''0''
     \<noteq> title untitledTask @ dash @ js ''N/A'' @ dash @ js ''0''"
  by (simp add: handleFetchProjectTasks_def toast_def exampleUser_def exampleStorage_def
      getUserScopedKey_def untitledTask_def stalePage_def task_eval)

subsection \<open>C8: a failed submission leaves no result\<close>

text \<open>
  C8. For every sprint-planner submission that fails (the flow rejects, for whatever
  reason), the page's result slot is empty afterwards: no partial output and no output
  of an earlier submission is kept. The busy flag is cleared as well.
\<close>

theorem onSubmit_failure_clears_result:
  "snd (suggestSprintPlan esc model data) = Inl failure \<Longrightarrow>
   aiResponse (onSubmit esc model data page) = None \<and>
   isSubmittingToAI (onSubmit esc model data page) = False"
  by (simp add: onSubmit_def toast_def Let_def)

theorem onSubmit_failure_clears_result_witness:
  "aiResponse stalePage = Some scenarioPlan \<and>
   snd (suggestSprintPlan id (failingModel (Error (js ''503 Service Unavailable''))) scenarioInput)
     = Inl (Error (js ''503 Service Unavailable'')) \<and>
   aiResponse (onSubmit id (failingModel (Error (js ''503 Service Unavailable''))) scenarioInput
       stalePage) = None \<and>
   aiResponse (onSubmit id (replyingModel headlessPlan) scenarioInput stalePage) = None \<and>
   aiResponse (onSubmit id (replyingModel scenarioPlan) scenarioInput stalePage) = Some scenarioPlan"
  using
    onSubmit_failure_clears_result
      [of id "failingModel (Error (js ''503 Service Unavailable''))" scenarioInput
          "Error (js ''503 Service Unavailable'')" stalePage]
    onSubmit_failure_clears_result
      [of id "replyingModel headlessPlan" scenarioInput "Error AI_FORMAT_ERROR" stalePage]
  by (simp add: flow_eval failingModel_def replyingModel_def stalePage_def onSubmit_def
      toast_def headlessPlan_def scenarioPlan_def js_def)

subsection \<open>C9: the task actions check the project's owner first\<close>

text \<open>
  C9. For every user id and project id: when the project does not exist or its
  \<^verbatim>\<open>ownerId\<close> is not the calling user, \<^verbatim>\<open>getTasksByProjectId\<close>, \<^verbatim>\<open>updateTask\<close> and
  \<^verbatim>\<open>deleteTask\<close> return \<^verbatim>\<open>[]\<close>, \<^verbatim>\<open>null\<close> and \<^verbatim>\<open>false\<close>, make no request that reads
  or writes the project's tasks, and leave the database as it was.
\<close>

theorem task_actions_guarded:
  "\<not> ownsProject db projId userId \<Longrightarrow>
   fst (getTasksByProjectId (Some db) projId userId) = [] \<and>
   (\<forall>request \<in> set (snd (getTasksByProjectId (Some db) projId userId)). \<not> touchesTasks request) \<and>
   fst (updateTask (Some db) (taskData\<lparr>projectId := projId\<rparr>) userId) = None \<and>
   fst (snd (updateTask (Some db) (taskData\<lparr>projectId := projId\<rparr>) userId)) = Some db \<and>
   (\<forall>request \<in> set (snd (snd (updateTask (Some db) (taskData\<lparr>projectId := projId\<rparr>) userId))).
      \<not> touchesTasks request) \<and>
   fst (deleteTask (Some db) projId taskId userId) = False \<and>
   fst (snd (deleteTask (Some db) projId taskId userId)) = Some db \<and>
   (\<forall>request \<in> set (snd (snd (deleteTask (Some db) projId taskId userId))). \<not> touchesTasks request)"
  by (simp add: getTasksByProjectId_def updateTask_def deleteTask_def)

text \<open>
  In the example database \<^verbatim>\<open>bob\<close> does not own project \<^verbatim>\<open>p1\<close> and no project \<^verbatim>\<open>p2\<close>
  exists; the owner \<^verbatim>\<open>ann\<close> gets the task and may delete it.
\<close>

theorem task_actions_guarded_witness:
  "\<not> ownsProject exampleDb (js ''p1'') (js ''bob'') \<and>
   \<not> ownsProject exampleDb (js ''p2'') (js ''ann'') \<and>
   getTasksByProjectId (Some exampleDb) (js ''p1'') (js ''bob'') = ([], [GetProject (js ''p1'')]) \<and>
   getTasksByProjectId (Some exampleDb) (js ''p2'') (js ''ann'') = ([], [GetProject (js ''p2'')]) \<and>
   updateTask (Some exampleDb) fixBugTask (js ''bob'')
     = (None, Some exampleDb, [GetProject (js ''p1'')]) \<and>
   deleteTask (Some exampleDb) (js ''p1'') (js ''task-1'') (js ''bob'')
     = (False, Some exampleDb, [GetProject (js ''p1'')]) \<and>
   fst (getTasksByProjectId (Some exampleDb) (js ''p1'') (js ''ann'')) = [fixBugTask] \<and>
   deleteTask (Some exampleDb) (js ''p1'') (js ''task-1'') (js ''ann'')
     = (True, Some (exampleDb\<lparr>tasks := []\<rparr>),
        [GetProject (js ''p1''), DeleteTask (js ''p1'') (js ''task-1'')])"
  using
    task_actions_guarded [of exampleDb "js ''p1''" "js ''bob''" fixBugTask "js ''task-1''"]
    task_actions_guarded [of exampleDb "js ''p2''" "js ''ann''" fixBugTask "js ''task-1''"]
  by (simp add: getTasksByProjectId_def updateTask_def deleteTask_def ownsProject_def
      exampleDb_def fixBugTask_def tasksByCreatedAtDesc_def deleteDoc_def js_def)

subsection \<open>C10: de-duplication is idempotent\<close>

text \<open>
  C10. \<^verbatim>\<open>deduplicateTasks\<close> is idempotent: for every input string, applying it to its own
  output returns the output unchanged.
\<close>

theorem deduplicateTasks_idempotent:
  "deduplicateTasks (deduplicateTasks s) = deduplicateTasks s"
proof (cases "dedupLines s = []")
  case True
  then show ?thesis
    using dedupLines_of_empty_result [of s] by (simp add: deduplicateTasks_def)
next
  case False
  then show ?thesis
    using dedupLines_fixed [of s] by (simp add: deduplicateTasks_def)
qed

theorem deduplicateTasks_idempotent_witness:
  "deduplicateTasks (js ''b\<newline> a \<newline>\<newline>b'') = js ''b\<newline>a'' \<and>
   deduplicateTasks (deduplicateTasks (js ''b\<newline> a \<newline>\<newline>b'')) = js ''b\<newline>a''"
  using deduplicateTasks_idempotent [of "js ''b\<newline> a \<newline>\<newline>b''"]
  by (simp add: str_eval)

end
